theory Spec2Isabelle
  imports Complex_Main
begin

unbundle bit_operations_syntax

section \<open>Python values and exceptions\<close>

text \<open>
  The exceptions that the modelled part of \<^verbatim>\<open>basemaps/mapviewer.py\<close> can raise.
  A function that may raise returns \<open>py_error + 'a\<close>, with \<open>Inl\<close> for the exception.
  Floating-point numbers are modelled by exact reals.
\<close>

datatype py_error =
    IndexError
  | KeyError
  | TypeError
  | AttributeError
  | ZeroDivisionError
  | NotImplementedError
  | DatabaseError
  | OperationalError
  | IntegrityError
  | ValueError

type_synonym bytes = string

text \<open>List indexing \<^verbatim>\<open>xs[i]\<close>: a negative index counts from the end.\<close>

definition py_index :: "'a list \<Rightarrow> int \<Rightarrow> py_error + 'a" where
  "py_index xs i =
     (if 0 \<le> i \<and> i < int (length xs) then Inr (xs ! nat i)
      else if i < 0 \<and> - int (length xs) \<le> i then Inr (xs ! nat (int (length xs) + i))
      else Inl IndexError)"

text \<open>True division \<^verbatim>\<open>a / b\<close>.\<close>

definition py_truediv :: "real \<Rightarrow> real \<Rightarrow> py_error + real" where
  "py_truediv a b = (if b = 0 then Inl ZeroDivisionError else Inr (a / b))"

text \<open>\<^verbatim>\<open>b ** n\<close> for an integer exponent; a zero base with a negative exponent raises.\<close>

definition py_pow :: "real \<Rightarrow> int \<Rightarrow> py_error + real" where
  "py_pow b n = (if b = 0 \<and> n < 0 then Inl ZeroDivisionError else Inr (b powi n))"

text \<open>\<^verbatim>\<open>str(n)\<close> for an integer: decimal digits, with a minus sign when negative.\<close>

definition digit_char :: "nat \<Rightarrow> char" where
  "digit_char d = ''0123456789'' ! d"

function str_nat :: "nat \<Rightarrow> string" where
  "str_nat n = (if n < 10 then [digit_char n] else str_nat (n div 10) @ [digit_char (n mod 10)])"
  by pat_completeness auto
termination
  by (relation "measure id") auto

definition str_int :: "int \<Rightarrow> string" where
  "str_int i = (if i < 0 then CHR ''-'' # str_nat (nat (- i)) else str_nat (nat i))"

section \<open>TileMatrix\<close>

text \<open>
  A grid definition is the dictionary handed to \<^verbatim>\<open>TileMatrix.__init__\<close>; its keys become
  attributes. The keys \<^verbatim>\<open>resolutions\<close>, \<^verbatim>\<open>initRes\<close>, \<^verbatim>\<open>resFactor\<close> and \<^verbatim>\<open>nbLevels\<close> may be
  absent (or \<^verbatim>\<open>None\<close>), which the code tests with \<^verbatim>\<open>getattr(self, k, None) is not None\<close>.
\<close>

record gridDef =
  g_CRS :: int
  g_bbox :: "real \<times> real \<times> real \<times> real"
  g_bboxCRS :: int
  g_tileSize :: int
  g_originLoc :: string
  g_resolutions :: "real list option"
  g_initRes :: "real option"
  g_resFactor :: "real option"
  g_nbLevels :: "int option"

record TileMatrix =
  CRS :: int
  tileSize :: int
  originLoc :: string
  xmin :: real
  ymin :: real
  xmax :: real
  ymax :: real
  originx :: real
  originy :: real
  resolutions :: "real list option"
  initRes :: "real option"
  resFactor :: "real option"
  nbLevels :: int

definition defaultNbLevels :: int where
  "defaultNbLevels = 24"

text \<open>
  \<^verbatim>\<open>reproj\<close> uses logarithms and tangents (or the external library osr); the constructor
  takes it as a parameter \<open>rp\<close>, called as \<open>rp crs1 crs2 x y\<close>.
\<close>

type_synonym reproj = "int \<Rightarrow> int \<Rightarrow> real \<Rightarrow> real \<Rightarrow> py_error + real \<times> real"

definition geoToProj_crs :: "reproj \<Rightarrow> int \<Rightarrow> real \<Rightarrow> real \<Rightarrow> py_error + real \<times> real" where
  "geoToProj_crs rp crs long lat =
     (if crs = 4326 then Inr (long, lat) else rp 4326 crs long lat)"

definition TileMatrix_init :: "reproj \<Rightarrow> gridDef \<Rightarrow> py_error + TileMatrix" where
  "TileMatrix_init rp g =
     (case (if g_bboxCRS g \<noteq> g_CRS g
            then (case g_bbox g of (lonMin, latMin, lonMax, latMax) \<Rightarrow>
                   (case geoToProj_crs rp (g_CRS g) lonMin latMax of
                      Inl e \<Rightarrow> Inl e
                    | Inr (x0, y1) \<Rightarrow>
                       (case geoToProj_crs rp (g_CRS g) lonMax latMin of
                          Inl e \<Rightarrow> Inl e
                        | Inr (x1, y0) \<Rightarrow> Inr (x0, y0, x1, y1))))
            else Inr (g_bbox g)) of
        Inl e \<Rightarrow> Inl e
      | Inr (x0, y0, x1, y1) \<Rightarrow>
         (case (if g_resolutions g \<noteq> None then Inr (g_initRes g)
                else if g_initRes g \<noteq> None then Inr (g_initRes g)
                else (case py_truediv (max \<bar>x1 - x0\<bar> \<bar>y1 - y0\<bar>) (of_int (g_tileSize g)) of
                        Inl e \<Rightarrow> Inl e
                      | Inr r \<Rightarrow> Inr (Some r))) of
            Inl e \<Rightarrow> Inl e
          | Inr ir \<Rightarrow>
             (let nb = (case g_resolutions g of
                          Some rs \<Rightarrow> int (length rs)
                        | None \<Rightarrow> (case g_nbLevels g of Some n \<Rightarrow> n | None \<Rightarrow> defaultNbLevels))
              in if g_originLoc g = ''NW'' \<or> g_originLoc g = ''SW'' then
                   Inr \<lparr> CRS = g_CRS g, tileSize = g_tileSize g, originLoc = g_originLoc g,
                         xmin = x0, ymin = y0, xmax = x1, ymax = y1,
                         originx = x0,
                         originy = (if g_originLoc g = ''NW'' then y1 else y0),
                         resolutions = g_resolutions g, initRes = ir,
                         resFactor = g_resFactor g, nbLevels = nb \<rparr>
                 else Inl NotImplementedError)))"

definition globalbbox :: "TileMatrix \<Rightarrow> real \<times> real \<times> real \<times> real" where
  "globalbbox tm = (xmin tm, ymin tm, xmax tm, ymax tm)"

text \<open>
  \<^verbatim>\<open>getRes\<close>: with an explicit list, a zoom greater than the length is set to the length
  and the list is then indexed; without one, \<^verbatim>\<open>initRes / resFactor**zoom\<close>.
\<close>

definition getRes :: "TileMatrix \<Rightarrow> int \<Rightarrow> py_error + real" where
  "getRes tm zoom =
     (case resolutions tm of
        Some rs \<Rightarrow>
          (let zoom' = (if zoom > int (length rs) then int (length rs) else zoom)
           in py_index rs zoom')
      | None \<Rightarrow>
          (case initRes tm of
             None \<Rightarrow> Inl AttributeError
           | Some ir \<Rightarrow>
              (case resFactor tm of
                 None \<Rightarrow> Inl AttributeError
               | Some rf \<Rightarrow>
                  (case py_pow rf zoom of
                     Inl e \<Rightarrow> Inl e
                   | Inr p \<Rightarrow> py_truediv ir p))))"

text \<open>
  \<^verbatim>\<open>getTileNumber\<close> and \<^verbatim>\<open>getTileCoords\<close> under exact arithmetic: the program computes
  the products, sums and the quotient in doubles, each rounded; here they are exact. What is
  proved of the two functions together is therefore a property of the formulas, and the
  rounded quotient of the program may fall below an integer that the exact one reaches.
\<close>

definition getTileNumber :: "TileMatrix \<Rightarrow> real \<Rightarrow> real \<Rightarrow> int \<Rightarrow> py_error + int \<times> int" where
  "getTileNumber tm x y zoom =
     (case getRes tm zoom of
        Inl e \<Rightarrow> Inl e
      | Inr res \<Rightarrow>
         (let geoTileSize = of_int (tileSize tm) * res;
              dx = x - originx tm;
              dy = (if originLoc tm = ''NW'' then originy tm - y else y - originy tm)
          in case py_truediv dx geoTileSize of
               Inl e \<Rightarrow> Inl e
             | Inr col \<Rightarrow>
                (case py_truediv dy geoTileSize of
                   Inl e \<Rightarrow> Inl e
                 | Inr row \<Rightarrow> Inr (\<lfloor>col\<rfloor>, \<lfloor>row\<rfloor>))))"

definition getTileCoords :: "TileMatrix \<Rightarrow> int \<Rightarrow> int \<Rightarrow> int \<Rightarrow> py_error + real \<times> real" where
  "getTileCoords tm col row zoom =
     (case getRes tm zoom of
        Inl e \<Rightarrow> Inl e
      | Inr res \<Rightarrow>
         (let geoTileSize = of_int (tileSize tm) * res;
              x = originx tm + of_int col * geoTileSize;
              y = (if originLoc tm = ''NW'' then originy tm - of_int row * geoTileSize
                   else originy tm + of_int row * geoTileSize + geoTileSize)
          in Inr (x, y)))"

section \<open>Quad keys\<close>

text \<open>\<^verbatim>\<open>range(z, 0, -1)\<close>: the integers \<open>z, z - 1, \<dots>, 1\<close>.\<close>

definition range_down :: "int \<Rightarrow> int list" where
  "range_down z = rev [1..z]"

definition quad_digit :: "int \<Rightarrow> int \<Rightarrow> int \<Rightarrow> int" where
  "quad_digit x y i =
     (let mask = push_bit (nat (i - 1)) (1::int);
          digit = 0;
          digit = (if x AND mask \<noteq> 0 then digit + 1 else digit);
          digit = (if y AND mask \<noteq> 0 then digit + 2 else digit)
      in digit)"

definition getQuadKey :: "int \<Rightarrow> int \<Rightarrow> int \<Rightarrow> string" where
  "getQuadKey x y z = foldl (\<lambda>quadKey i. quadKey @ str_int (quad_digit x y i)) [] (range_down z)"

section \<open>The SQLite file behind a cache\<close>

text \<open>
  The rows of the five tables, with the columns that \<^verbatim>\<open>GeoPackage.create\<close> declares.
  Times are microseconds of local time since a fixed epoch.
\<close>

record contents_row =
  c_table_name :: string
  c_data_type :: string
  c_identifier :: string
  c_description :: string
  c_last_change :: int
  c_min_x :: real
  c_min_y :: real
  c_max_x :: real
  c_max_y :: real
  c_srs_id :: int

record srs_row =
  s_srs_name :: string
  s_srs_id :: int
  s_organization :: string
  s_organization_coordsys_id :: int
  s_definition :: string
  s_description :: "string option"

record matrix_set_row =
  ms_table_name :: string
  ms_srs_id :: int
  ms_min_x :: real
  ms_min_y :: real
  ms_max_x :: real
  ms_max_y :: real

record matrix_row =
  m_table_name :: string
  m_zoom_level :: int
  m_matrix_width :: int
  m_matrix_height :: int
  m_tile_width :: int
  m_tile_height :: int
  m_pixel_x_size :: real
  m_pixel_y_size :: real

record tile =
  tile_id :: int
  zoom_level :: int
  tile_column :: int
  tile_row :: int
  tile_data :: bytes
  last_modified :: "int option"

text \<open>
  A name of the database is free (\<open>None\<close>), or it is a table with the schema of
  \<^verbatim>\<open>create\<close> and some rows, or it is \<open>Misshaped\<close>: an object that lacks a column named by
  the \<^verbatim>\<open>SELECT\<close> of \<^verbatim>\<open>isGPKG\<close> on it. Every statement of the code on a table names
  those columns, so every statement on a misshaped table raises. A table that has them is
  taken to have the schema of \<^verbatim>\<open>create\<close>.
\<close>

datatype 'r table = Rows "'r list" | Misshaped

record database =
  application_id :: int
  gpkg_contents :: "contents_row table option"
  gpkg_spatial_ref_sys :: "srs_row table option"
  gpkg_tile_matrix_set :: "matrix_set_row table option"
  gpkg_tile_matrix :: "matrix_row table option"
  gpkg_tiles :: "tile table option"
  tiles_seq :: int

datatype db_file = NotADatabase | Database database

text \<open>The requests a cache and the network receive, recorded in order.\<close>

datatype event =
    TileRead int int int
  | TileWrite int int int bytes
  | HttpGet string

record world =
  files :: "string \<rightharpoonup> db_file"
  now :: int
  log :: "event list"

definition empty_db :: database where
  "empty_db = \<lparr> application_id = 0, gpkg_contents = None, gpkg_spatial_ref_sys = None,
     gpkg_tile_matrix_set = None, gpkg_tile_matrix = None, gpkg_tiles = None, tiles_seq = 0 \<rparr>"

text \<open>
  \<^verbatim>\<open>sqlite3.connect\<close> followed by a first statement: a missing file is a new, empty
  database; a file that is not an SQLite database raises on the first statement.
\<close>

definition connect :: "world \<Rightarrow> string \<Rightarrow> py_error + database" where
  "connect w path =
     (case files w path of
        None \<Rightarrow> Inr empty_db
      | Some NotADatabase \<Rightarrow> Inl DatabaseError
      | Some (Database db) \<Rightarrow> Inr db)"

definition store :: "world \<Rightarrow> string \<Rightarrow> database \<Rightarrow> world" where
  "store w path db = w\<lparr>files := (files w)(path \<mapsto> Database db)\<rparr>"

text \<open>The rows of a table for a statement that names its columns.\<close>

definition rows_of :: "'r table option \<Rightarrow> py_error + 'r list" where
  "rows_of t = (case t of Some (Rows rs) \<Rightarrow> Inr rs | _ \<Rightarrow> Inl OperationalError)"

definition select_ok :: "'r table option \<Rightarrow> bool" where
  "select_ok t = (case t of Some (Rows rs) \<Rightarrow> True | _ \<Rightarrow> False)"

text \<open>
  \<^verbatim>\<open>INSERT\<close> fails when the new row conflicts with a row on a key;
  \<^verbatim>\<open>INSERT OR REPLACE\<close> deletes the rows it conflicts with first.
\<close>

definition insert_row :: "('r \<Rightarrow> 'r \<Rightarrow> bool) \<Rightarrow> 'r \<Rightarrow> 'r list \<Rightarrow> py_error + 'r list" where
  "insert_row conflict r rs =
     (if list_ex (conflict r) rs then Inl IntegrityError else Inr (rs @ [r]))"

definition insert_or_replace :: "('r \<Rightarrow> 'r \<Rightarrow> bool) \<Rightarrow> 'r \<Rightarrow> 'r list \<Rightarrow> 'r list" where
  "insert_or_replace conflict r rs = filter (\<lambda>r'. \<not> conflict r r') rs @ [r]"

text \<open>\<^verbatim>\<open>datetime('now','localtime')\<close>: the local time, cut to whole seconds.\<close>

definition sql_now :: "world \<Rightarrow> int" where
  "sql_now w = now w - now w mod 1000000"

text \<open>\<^verbatim>\<open>math.ceil(a / b)\<close>.\<close>

definition ceil_div :: "real \<Rightarrow> real \<Rightarrow> py_error + int" where
  "ceil_div a b = (if b = 0 then Inl ZeroDivisionError else Inr \<lceil>a / b\<rceil>)"

section \<open>GeoPackage\<close>

record GeoPackage =
  dbPath :: string
  gp_name :: string
  gp_crs :: int
  gp_tileSize :: int
  gp_xmin :: real
  gp_ymin :: real
  gp_xmax :: real
  gp_ymax :: real
  gp_resolutions :: "real list"

definition MAX_DAYS :: int where
  "MAX_DAYS = 90"

text \<open>\<^verbatim>\<open>os.path.splitext(os.path.basename(path))[0]\<close> for a POSIX path.\<close>

definition basename :: "string \<Rightarrow> string" where
  "basename p = rev (takeWhile (\<lambda>c. c \<noteq> CHR ''/'') (rev p))"

definition splitext_root :: "string \<Rightarrow> string" where
  "splitext_root b =
     (let lead = takeWhile (\<lambda>c. c = CHR ''.'') b;
          rest = dropWhile (\<lambda>c. c = CHR ''.'') b
      in if CHR ''.'' \<in> set rest
         then lead @ rev (tl (dropWhile (\<lambda>c. c \<noteq> CHR ''.'') (rev rest)))
         else b)"

text \<open>\<^verbatim>\<open>[self.initRes / self.resFactor**zoom for zoom in range(self.nbLevels)]\<close>\<close>

fun collect :: "('a \<Rightarrow> py_error + 'b) \<Rightarrow> 'a list \<Rightarrow> py_error + 'b list" where
  "collect f [] = Inr []"
| "collect f (x # xs) =
     (case f x of
        Inl e \<Rightarrow> Inl e
      | Inr y \<Rightarrow> (case collect f xs of Inl e \<Rightarrow> Inl e | Inr ys \<Rightarrow> Inr (y # ys)))"

definition getResList :: "TileMatrix \<Rightarrow> py_error + real list" where
  "getResList tm =
     (case resolutions tm of
        Some rs \<Rightarrow> Inr rs
      | None \<Rightarrow>
         collect (\<lambda>zoom.
            case initRes tm of
              None \<Rightarrow> Inl AttributeError
            | Some ir \<Rightarrow>
               (case resFactor tm of
                  None \<Rightarrow> Inl AttributeError
                | Some rf \<Rightarrow>
                   (case py_pow rf zoom of
                      Inl e \<Rightarrow> Inl e
                    | Inr p \<Rightarrow> py_truediv ir p)))
           [0..nbLevels tm - 1])"

definition isGPKG :: "GeoPackage \<Rightarrow> world \<Rightarrow> py_error + bool" where
  "isGPKG gp w =
     (case files w (dbPath gp) of
        None \<Rightarrow> Inr False
      | Some NotADatabase \<Rightarrow> Inl DatabaseError
      | Some (Database db) \<Rightarrow>
         (if \<not> application_id db = 1196437808 then Inr False
          else if select_ok (gpkg_contents db) \<and> select_ok (gpkg_spatial_ref_sys db) \<and>
                  select_ok (gpkg_tile_matrix_set db) \<and> select_ok (gpkg_tile_matrix db) \<and>
                  select_ok (gpkg_tiles db)
          then Inr True
          else Inr False))"

text \<open>
  \<^verbatim>\<open>create\<close>: the pragma, then five \<^verbatim>\<open>CREATE TABLE\<close> statements; each raises when
  its name is taken.
\<close>

definition create :: "GeoPackage \<Rightarrow> world \<Rightarrow> py_error + world" where
  "create gp w =
     (case connect w (dbPath gp) of
        Inl e \<Rightarrow> Inl e
      | Inr db \<Rightarrow>
         (let db = db\<lparr>application_id := 1196437808\<rparr> in
          if gpkg_contents db \<noteq> None then Inl OperationalError
          else let db = db\<lparr>gpkg_contents := Some (Rows [])\<rparr> in
          if gpkg_spatial_ref_sys db \<noteq> None then Inl OperationalError
          else let db = db\<lparr>gpkg_spatial_ref_sys := Some (Rows [])\<rparr> in
          if gpkg_tile_matrix_set db \<noteq> None then Inl OperationalError
          else let db = db\<lparr>gpkg_tile_matrix_set := Some (Rows [])\<rparr> in
          if gpkg_tile_matrix db \<noteq> None then Inl OperationalError
          else let db = db\<lparr>gpkg_tile_matrix := Some (Rows [])\<rparr> in
          if gpkg_tiles db \<noteq> None then Inl OperationalError
          else let db = db\<lparr>gpkg_tiles := Some (Rows [])\<rparr> in
          Inr (store w (dbPath gp) db)))"

definition contents_conflict :: "contents_row \<Rightarrow> contents_row \<Rightarrow> bool" where
  "contents_conflict r r' \<longleftrightarrow>
     c_table_name r = c_table_name r' \<or> c_identifier r = c_identifier r'"

definition insertMetadata :: "GeoPackage \<Rightarrow> world \<Rightarrow> py_error + world" where
  "insertMetadata gp w =
     (case connect w (dbPath gp) of
        Inl e \<Rightarrow> Inl e
      | Inr db \<Rightarrow>
         (case rows_of (gpkg_contents db) of
            Inl e \<Rightarrow> Inl e
          | Inr rs \<Rightarrow>
             (case insert_row contents_conflict
                     \<lparr> c_table_name = ''gpkg_tiles'', c_data_type = ''tiles'',
                       c_identifier = gp_name gp, c_description = ''Created with BlenderGIS'',
                       c_last_change = now w,
                       c_min_x = gp_xmin gp, c_min_y = gp_ymin gp,
                       c_max_x = gp_xmax gp, c_max_y = gp_ymax gp, c_srs_id = gp_crs gp \<rparr> rs of
                Inl e \<Rightarrow> Inl e
              | Inr rs' \<Rightarrow> Inr (store w (dbPath gp) (db\<lparr>gpkg_contents := Some (Rows rs')\<rparr>)))))"

definition srs_conflict :: "srs_row \<Rightarrow> srs_row \<Rightarrow> bool" where
  "srs_conflict r r' \<longleftrightarrow> s_srs_id r = s_srs_id r'"

definition insertCRS :: "GeoPackage \<Rightarrow> int \<Rightarrow> string \<Rightarrow> string \<Rightarrow> world \<Rightarrow> py_error + world" where
  "insertCRS gp code name wkt w =
     (case connect w (dbPath gp) of
        Inl e \<Rightarrow> Inl e
      | Inr db \<Rightarrow>
         (case rows_of (gpkg_spatial_ref_sys db) of
            Inl e \<Rightarrow> Inl e
          | Inr rs \<Rightarrow>
             (case insert_row srs_conflict
                     \<lparr> s_srs_name = name, s_srs_id = code, s_organization = ''EPSG'',
                       s_organization_coordsys_id = code, s_definition = wkt,
                       s_description = None \<rparr> rs of
                Inl e \<Rightarrow> Inl e
              | Inr rs' \<Rightarrow>
                 Inr (store w (dbPath gp) (db\<lparr>gpkg_spatial_ref_sys := Some (Rows rs')\<rparr>)))))"

definition matrix_set_conflict :: "matrix_set_row \<Rightarrow> matrix_set_row \<Rightarrow> bool" where
  "matrix_set_conflict r r' \<longleftrightarrow> ms_table_name r = ms_table_name r'"

definition matrix_conflict :: "matrix_row \<Rightarrow> matrix_row \<Rightarrow> bool" where
  "matrix_conflict r r' \<longleftrightarrow>
     m_table_name r = m_table_name r' \<and> m_zoom_level r = m_zoom_level r'"

text \<open>The loop of \<^verbatim>\<open>insertTileMatrixSet\<close> over \<^verbatim>\<open>enumerate(self.resolutions)\<close>.\<close>

fun insert_levels :: "GeoPackage \<Rightarrow> int \<Rightarrow> real list \<Rightarrow> matrix_row list \<Rightarrow> py_error + matrix_row list" where
  "insert_levels gp level [] rows = Inr rows"
| "insert_levels gp level (res # rest) rows =
     (case ceil_div (gp_xmax gp - gp_xmin gp) (of_int (gp_tileSize gp) * res) of
        Inl e \<Rightarrow> Inl e
      | Inr wd \<Rightarrow>
         (case ceil_div (gp_ymax gp - gp_ymin gp) (of_int (gp_tileSize gp) * res) of
            Inl e \<Rightarrow> Inl e
          | Inr ht \<Rightarrow>
             insert_levels gp (level + 1) rest
               (insert_or_replace matrix_conflict
                  \<lparr> m_table_name = ''gpkg_tiles'', m_zoom_level = level,
                    m_matrix_width = wd, m_matrix_height = ht,
                    m_tile_width = gp_tileSize gp, m_tile_height = gp_tileSize gp,
                    m_pixel_x_size = res, m_pixel_y_size = res \<rparr> rows)))"

definition insertTileMatrixSet :: "GeoPackage \<Rightarrow> world \<Rightarrow> py_error + world" where
  "insertTileMatrixSet gp w =
     (case connect w (dbPath gp) of
        Inl e \<Rightarrow> Inl e
      | Inr db \<Rightarrow>
         (case rows_of (gpkg_tile_matrix_set db) of
            Inl e \<Rightarrow> Inl e
          | Inr sets \<Rightarrow>
             (let sets' = insert_or_replace matrix_set_conflict
                    \<lparr> ms_table_name = ''gpkg_tiles'', ms_srs_id = gp_crs gp,
                      ms_min_x = gp_xmin gp, ms_min_y = gp_ymin gp,
                      ms_max_x = gp_xmax gp, ms_max_y = gp_ymax gp \<rparr> sets
              in case rows_of (gpkg_tile_matrix db) of
                   Inl e \<Rightarrow> Inl e
                 | Inr ms \<Rightarrow>
                    (case insert_levels gp 0 (gp_resolutions gp) ms of
                       Inl e \<Rightarrow> Inl e
                     | Inr ms' \<Rightarrow>
                        Inr (store w (dbPath gp)
                              (db\<lparr>gpkg_tile_matrix_set := Some (Rows sets'),
                                  gpkg_tile_matrix := Some (Rows ms')\<rparr>))))))"

text \<open>The attributes that \<^verbatim>\<open>GeoPackage.__init__\<close> sets, given the list of resolutions.\<close>

definition GeoPackage_attrs :: "string \<Rightarrow> TileMatrix \<Rightarrow> real list \<Rightarrow> GeoPackage" where
  "GeoPackage_attrs path tm rl =
     \<lparr> dbPath = path, gp_name = splitext_root (basename path),
       gp_crs = CRS tm, gp_tileSize = tileSize tm,
       gp_xmin = xmin tm, gp_ymin = ymin tm, gp_xmax = xmax tm, gp_ymax = ymax tm,
       gp_resolutions = rl \<rparr>"

definition GeoPackage_init :: "string \<Rightarrow> TileMatrix \<Rightarrow> world \<Rightarrow> py_error + GeoPackage \<times> world" where
  "GeoPackage_init path tm w =
     (case getResList tm of
        Inl e \<Rightarrow> Inl e
      | Inr rl \<Rightarrow>
         (let gp = GeoPackage_attrs path tm rl
          in case isGPKG gp w of
               Inl e \<Rightarrow> Inl e
             | Inr True \<Rightarrow> Inr (gp, w)
             | Inr False \<Rightarrow>
                (case create gp w of
                   Inl e \<Rightarrow> Inl e
                 | Inr w1 \<Rightarrow>
                    (case insertMetadata gp w1 of
                       Inl e \<Rightarrow> Inl e
                     | Inr w2 \<Rightarrow>
                        (case insertCRS gp (gp_crs gp) (str_int (gp_crs gp)) [] w2 of
                           Inl e \<Rightarrow> Inl e
                         | Inr w3 \<Rightarrow>
                            (case insertTileMatrixSet gp w3 of
                               Inl e \<Rightarrow> Inl e
                             | Inr w4 \<Rightarrow> Inr (gp, w4)))))))"

definition tile_conflict :: "tile \<Rightarrow> tile \<Rightarrow> bool" where
  "tile_conflict r r' \<longleftrightarrow>
     tile_id r = tile_id r' \<or>
     (zoom_level r = zoom_level r' \<and> tile_column r = tile_column r' \<and> tile_row r = tile_row r')"

text \<open>
  The identifier of a new row under \<^verbatim>\<open>AUTOINCREMENT\<close>: one more than the largest
  identifier in the table or ever given by the sequence.
\<close>

definition next_id :: "database \<Rightarrow> tile list \<Rightarrow> int" where
  "next_id db rs = fold max (map tile_id rs) (tiles_seq db) + 1"

text \<open>
  \<^verbatim>\<open>putTile(x, y, z, data)\<close>: the new row takes the next identifier and the default
  time stamp.
\<close>

definition putTile :: "GeoPackage \<Rightarrow> int \<Rightarrow> int \<Rightarrow> int \<Rightarrow> bytes \<Rightarrow> world \<Rightarrow> py_error + world" where
  "putTile gp x y z data w =
     (case connect w (dbPath gp) of
        Inl e \<Rightarrow> Inl e
      | Inr db \<Rightarrow>
         (case rows_of (gpkg_tiles db) of
            Inl e \<Rightarrow> Inl e
          | Inr rs \<Rightarrow>
             (let r = \<lparr> tile_id = next_id db rs, zoom_level = z, tile_column = x,
                        tile_row = y, tile_data = data, last_modified = Some (sql_now w) \<rparr>;
                  db' = db\<lparr>gpkg_tiles := Some (Rows (insert_or_replace tile_conflict r rs)),
                           tiles_seq := next_id db rs\<rparr>
              in Inr ((store w (dbPath gp) db')\<lparr>log := log w @ [TileWrite z x y data]\<rparr>))))"

definition tile_at :: "int \<Rightarrow> int \<Rightarrow> int \<Rightarrow> tile \<Rightarrow> bool" where
  "tile_at z x y r \<longleftrightarrow> zoom_level r = z \<and> tile_column r = x \<and> tile_row r = y"

text \<open>\<^verbatim>\<open>timedelta.days\<close> of the difference of two times: whole days, rounded down.\<close>

definition delta_days :: "int \<Rightarrow> int \<Rightarrow> int" where
  "delta_days t1 t0 = (t1 - t0) div (86400 * 1000000)"

definition GeoPackage_getTile :: "GeoPackage \<Rightarrow> int \<Rightarrow> int \<Rightarrow> int \<Rightarrow> world \<Rightarrow> py_error + bytes option \<times> world" where
  "GeoPackage_getTile gp x y z w =
     (case connect w (dbPath gp) of
        Inl e \<Rightarrow> Inl e
      | Inr db \<Rightarrow>
         (case rows_of (gpkg_tiles db) of
            Inl e \<Rightarrow> Inl e
          | Inr rs \<Rightarrow>
             (let w' = w\<lparr>log := log w @ [TileRead z x y]\<rparr> in
              case find (tile_at z x y) rs of
                None \<Rightarrow> Inr (None, w')
              | Some r \<Rightarrow>
                 (case last_modified r of
                    None \<Rightarrow> Inl TypeError
                  | Some t \<Rightarrow>
                     (if delta_days (now w) t > MAX_DAYS then Inr (None, w')
                      else Inr (Some (tile_data r), w'))))))"

section \<open>MapService and MapImage\<close>

text \<open>
  \<^verbatim>\<open>MapImage\<close> is the only class of the module that is instantiated; it inherits the
  methods of \<^verbatim>\<open>MapService\<close>, which read attributes that only \<^verbatim>\<open>MapImage\<close> sets
  (\<^verbatim>\<open>self.zoom\<close>, \<^verbatim>\<open>self.tileSize\<close>). The record holds the attributes of a \<^verbatim>\<open>MapImage\<close>
  that the modelled methods use. The source and layer dictionaries come from the module
  \<^verbatim>\<open>servicesDefs\<close>; an attribute they may leave out is an option.
\<close>

record Layer =
  urlKey :: "string option"
  format :: "string option"
  style :: "string option"

datatype url_template = Template string | TemplateDict "(string \<times> string) list"

datatype image = Decoded bytes | Blank int int

record MapImage =
  srcKey :: string
  cacheFolder :: string
  service :: string
  quadTree :: bool
  urlTemplate :: url_template
  matrix :: "string option"
  layers :: "string \<rightharpoonup> Layer"
  tm1 :: TileMatrix
  tm2 :: TileMatrix
  caches :: "string \<rightharpoonup> GeoPackage"
  layKey :: string
  zoom :: int
  running :: bool
  col1 :: int
  row1 :: int
  mosaic :: "(image \<times> int \<times> int) list"
  cptTiles :: int

text \<open>
  What the model takes from outside: \<^verbatim>\<open>str\<close> on a float, \<^verbatim>\<open>imghdr.what(None, data)\<close>,
  the answer of the network to a request (\<open>None\<close> when \<^verbatim>\<open>urlopen\<close> or \<^verbatim>\<open>read\<close> raises,
  also by its timeout), and whether \<^verbatim>\<open>Image.open\<close> accepts the bytes.
\<close>

record env =
  str_float :: "real \<Rightarrow> string"
  what :: "bytes \<Rightarrow> string option"
  urlopen :: "string \<Rightarrow> bytes option"
  image_open :: "bytes \<Rightarrow> bool"

text \<open>
  \<^verbatim>\<open>s.replace(old, new)\<close>: every occurrence, from the left, without overlap. The counter
  is the number of characters of a matched occurrence that remain to be skipped.
\<close>

fun replace_from :: "string \<Rightarrow> string \<Rightarrow> nat \<Rightarrow> string \<Rightarrow> string" where
  "replace_from old new n [] = []"
| "replace_from old new (Suc n) (c # cs) = replace_from old new n cs"
| "replace_from old new 0 (c # cs) =
     (if take (length old) (c # cs) = old
      then new @ replace_from old new (length old - 1) cs
      else c # replace_from old new 0 cs)"

definition py_replace :: "string \<Rightarrow> string \<Rightarrow> string \<Rightarrow> string" where
  "py_replace old new s =
     (if old = [] then new @ concat (map (\<lambda>c. c # new) s) else replace_from old new 0 s)"

text \<open>\<^verbatim>\<open>sep.join(xs)\<close>\<close>

fun py_join :: "string \<Rightarrow> string list \<Rightarrow> string" where
  "py_join sep [] = []"
| "py_join sep [x] = x"
| "py_join sep (x # y # ys) = x @ sep @ py_join sep (y # ys)"

definition getCache :: "MapImage \<Rightarrow> string \<Rightarrow> world \<Rightarrow> py_error + GeoPackage \<times> MapImage \<times> world" where
  "getCache ms lk w =
     (case caches ms lk of
        Some cache \<Rightarrow> Inr (cache, ms, w)
      | None \<Rightarrow>
         (let mapKey = srcKey ms @ ''_'' @ lk;
              path = cacheFolder ms @ mapKey @ ''.gpkg''
          in case GeoPackage_init path (tm2 ms) w of
               Inl e \<Rightarrow> Inl e
             | Inr (gp, w') \<Rightarrow> Inr (gp, ms\<lparr>caches := (caches ms)(lk \<mapsto> gp)\<rparr>, w')))"

definition buildUrl_TMS :: "MapImage \<Rightarrow> Layer \<Rightarrow> int \<Rightarrow> int \<Rightarrow> int \<Rightarrow> py_error + url_template" where
  "buildUrl_TMS ms lay col row z =
     (case urlTemplate ms of
        TemplateDict d \<Rightarrow> Inl AttributeError
      | Template url \<Rightarrow>
         (case urlKey lay of
            None \<Rightarrow> Inl AttributeError
          | Some k \<Rightarrow>
             (let url = py_replace ''{LAY}'' k url in
              if \<not> quadTree ms then
                (let url = py_replace ''{X}'' (str_int col) url;
                     url = py_replace ''{Y}'' (str_int row) url;
                     url = py_replace ''{Z}'' (str_int z) url
                 in Inr (Template url))
              else
                (let quadkey = getQuadKey col row z
                 in Inr (Template (py_replace ''{QUADKEY}'' quadkey url))))))"

text \<open>The base address and the joined parameters of a dictionary template.\<close>

definition base_params :: "url_template \<Rightarrow> py_error + string" where
  "base_params t =
     (case t of
        Template s \<Rightarrow> Inl TypeError
      | TemplateDict d \<Rightarrow>
         (case map_of d ''BASE_URL'' of
            None \<Rightarrow> Inl KeyError
          | Some url \<Rightarrow>
             (if url = [] then Inl IndexError
              else
                (let url = (if last url \<noteq> CHR ''?'' then url @ ''?'' else url);
                     params = map (\<lambda>(k, v). py_join ''='' [k, v])
                                (filter (\<lambda>(k, v). k \<noteq> ''BASE_URL'') d)
                 in Inr (url @ py_join ''&'' params)))))"

text \<open>The three substitutions that the WMTS and WMS branches share.\<close>

definition replace_layer :: "Layer \<Rightarrow> string \<Rightarrow> py_error + string" where
  "replace_layer lay url =
     (case urlKey lay of
        None \<Rightarrow> Inl AttributeError
      | Some k \<Rightarrow>
         (case format lay of
            None \<Rightarrow> Inl AttributeError
          | Some f \<Rightarrow>
             (case style lay of
                None \<Rightarrow> Inl AttributeError
              | Some s \<Rightarrow>
                 Inr (py_replace ''{STYLE}'' s
                        (py_replace ''{FORMAT}'' f (py_replace ''{LAY}'' k url))))))"

definition buildUrl_WMTS :: "MapImage \<Rightarrow> Layer \<Rightarrow> int \<Rightarrow> int \<Rightarrow> int \<Rightarrow> py_error + url_template" where
  "buildUrl_WMTS ms lay col row z =
     (case base_params (urlTemplate ms) of
        Inl e \<Rightarrow> Inl e
      | Inr url \<Rightarrow>
         (case replace_layer lay url of
            Inl e \<Rightarrow> Inl e
          | Inr url \<Rightarrow>
             (case matrix ms of
                None \<Rightarrow> Inl AttributeError
              | Some m \<Rightarrow>
                 (let url = py_replace ''{MATRIX}'' m url;
                      url = py_replace ''{X}'' (str_int col) url;
                      url = py_replace ''{Y}'' (str_int row) url;
                      url = py_replace ''{Z}'' (str_int z) url
                  in Inr (Template url)))))"

text \<open>The WMS branch up to the bounding box: layer, format, style, CRS, width, height.\<close>

definition wms_prefix :: "MapImage \<Rightarrow> Layer \<Rightarrow> py_error + string" where
  "wms_prefix ms lay =
     (case base_params (urlTemplate ms) of
        Inl e \<Rightarrow> Inl e
      | Inr url \<Rightarrow>
         (case replace_layer lay url of
            Inl e \<Rightarrow> Inl e
          | Inr url \<Rightarrow>
             (let url = py_replace ''{CRS}'' (str_int (CRS (tm1 ms))) url;
                  url = py_replace ''{WIDTH}'' (str_int (tileSize (tm2 ms))) url;
                  url = py_replace ''{HEIGHT}'' (str_int (tileSize (tm2 ms))) url
              in Inr url)))"

text \<open>The text substituted for \<^verbatim>\<open>{BBOX}\<close>.\<close>

definition wms_bbox :: "env \<Rightarrow> MapImage \<Rightarrow> int \<Rightarrow> int \<Rightarrow> int \<Rightarrow> py_error + string" where
  "wms_bbox ev ms col row z =
     (case getTileCoords (tm1 ms) col row z of
        Inl e \<Rightarrow> Inl e
      | Inr (xmin', ymax') \<Rightarrow>
         (case getRes (tm1 ms) z of
            Inl e \<Rightarrow> Inl e
          | Inr res \<Rightarrow>
             (let xmax' = xmin' + of_int (tileSize (tm1 ms)) * res;
                  ymin' = ymax' - of_int (tileSize (tm1 ms)) * res
              in case urlTemplate ms of
                   Template s \<Rightarrow> Inl TypeError
                 | TemplateDict d \<Rightarrow>
                    (case map_of d ''VERSION'' of
                       None \<Rightarrow> Inl KeyError
                     | Some v \<Rightarrow>
                        (if v = ''1.3.0'' \<and> CRS (tm1 ms) = 4326
                         then Inr (py_join '','' (map (str_float ev) [ymin', xmin', ymax', xmax']))
                         else Inr (py_join '','' (map (str_float ev) [xmin', ymin', xmax', ymax'])))))))"

definition buildUrl_WMS :: "env \<Rightarrow> MapImage \<Rightarrow> Layer \<Rightarrow> int \<Rightarrow> int \<Rightarrow> int \<Rightarrow> py_error + url_template" where
  "buildUrl_WMS ev ms lay col row z =
     (case wms_prefix ms lay of
        Inl e \<Rightarrow> Inl e
      | Inr url \<Rightarrow>
         (case wms_bbox ev ms col row z of
            Inl e \<Rightarrow> Inl e
          | Inr bbox \<Rightarrow> Inr (Template (py_replace ''{BBOX}'' bbox url))))"

definition buildUrl :: "env \<Rightarrow> MapImage \<Rightarrow> string \<Rightarrow> int \<Rightarrow> int \<Rightarrow> int \<Rightarrow> py_error + url_template" where
  "buildUrl ev ms lk col row z =
     (case layers ms lk of
        None \<Rightarrow> Inl KeyError
      | Some lay \<Rightarrow>
         (if service ms = ''TMS'' then buildUrl_TMS ms lay col row z
          else if service ms = ''WMTS'' then buildUrl_WMTS ms lay col row z
          else if service ms = ''WMS'' then buildUrl_WMS ev ms lay col row z
          else Inr (urlTemplate ms)))"

text \<open>
  The request inside \<^verbatim>\<open>try\<close>: any exception gives \<open>None\<close>. A template that is still a
  dictionary is no address, and no request is sent for it.
\<close>

definition download :: "env \<Rightarrow> url_template \<Rightarrow> world \<Rightarrow> bytes option \<times> world" where
  "download ev url w =
     (case url of
        TemplateDict d \<Rightarrow> (None, w)
      | Template u \<Rightarrow> (urlopen ev u, w\<lparr>log := log w @ [HttpGet u]\<rparr>))"

text \<open>The test \<^verbatim>\<open>imghdr.what(None, data) is None\<close> on data that may be \<^verbatim>\<open>None\<close> already.\<close>

definition sniffed :: "env \<Rightarrow> bytes option \<Rightarrow> bytes option" where
  "sniffed ev data =
     (case data of
        None \<Rightarrow> None
      | Some d \<Rightarrow> (if what ev d = None then None else Some d))"

definition getTile :: "env \<Rightarrow> MapImage \<Rightarrow> string \<Rightarrow> int \<Rightarrow> int \<Rightarrow> int \<Rightarrow> world \<Rightarrow>
    py_error + bytes option \<times> MapImage \<times> world" where
  "getTile ev ms lk col row z w =
     (case getCache ms lk w of
        Inl e \<Rightarrow> Inl e
      | Inr (cache, ms, w) \<Rightarrow>
         (case getTileCoords (tm2 ms) col row z of
            Inl e \<Rightarrow> Inl e
          | Inr (x, y) \<Rightarrow>
             (if row < 0 \<or> col < 0 then Inr (None, ms, w)
              else if \<not> (xmin (tm2 ms) \<le> x \<and> x < xmax (tm2 ms)) \<or>
                      \<not> (ymin (tm2 ms) < y \<and> y \<le> ymax (tm2 ms)) then Inr (None, ms, w)
              else
                (case GeoPackage_getTile cache col row z w of
                   Inl e \<Rightarrow> Inl e
                 | Inr (data, w) \<Rightarrow>
                    (case sniffed ev data of
                       Some d \<Rightarrow> Inr (Some d, ms, w)
                     | None \<Rightarrow>
                        (case buildUrl ev ms lk col row z of
                           Inl e \<Rightarrow> Inl e
                         | Inr url \<Rightarrow>
                            (case download ev url w of
                               (data, w) \<Rightarrow>
                                 (case sniffed ev data of
                                    None \<Rightarrow> Inr (None, ms, w)
                                  | Some d \<Rightarrow>
                                     (case putTile cache col row (zoom ms) d w of
                                        Inl e \<Rightarrow> Inl e
                                      | Inr w \<Rightarrow> Inr (Some d, ms, w))))))))))"

text \<open>
  \<^verbatim>\<open>Image.open(io.BytesIO(data))\<close> under \<^verbatim>\<open>try\<close>, with the white tile of the handler;
  \<^verbatim>\<open>Image.new\<close> refuses a negative size.
\<close>

definition open_or_blank :: "env \<Rightarrow> int \<Rightarrow> bytes option \<Rightarrow> py_error + image" where
  "open_or_blank ev ts data =
     (case (case data of None \<Rightarrow> None | Some d \<Rightarrow> (if image_open ev d then Some d else None)) of
        Some d \<Rightarrow> Inr (Decoded d)
      | None \<Rightarrow> (if ts < 0 then Inl ValueError else Inr (Blank ts ts)))"

text \<open>
  \<^verbatim>\<open>MapImage.load\<close>, run by one worker alone: the flag \<^verbatim>\<open>running\<close> is read before each
  tile, and no other thread changes it or the mosaic in between.
\<close>

fun load :: "env \<Rightarrow> (int \<times> int) list \<Rightarrow> MapImage \<Rightarrow> world \<Rightarrow> py_error + MapImage \<times> world" where
  "load ev [] ms w = Inr (ms, w)"
| "load ev ((col, row) # tiles) ms w =
     (if \<not> running ms then Inr (ms, w)
      else
        (case getTile ev ms (layKey ms) col row (zoom ms) w of
           Inl e \<Rightarrow> Inl e
         | Inr (data, ms1, w1) \<Rightarrow>
            (case open_or_blank ev (tileSize (tm2 ms1)) data of
               Inl e \<Rightarrow> Inl e
             | Inr img \<Rightarrow>
                (let posx = (col - col1 ms1) * tileSize (tm2 ms1);
                     posy = \<bar>row - row1 ms1\<bar> * tileSize (tm2 ms1)
                 in load ev tiles
                      (ms1\<lparr>mosaic := mosaic ms1 @ [(img, posx, posy)],
                           cptTiles := cptTiles ms1 + 1\<rparr>) w1))))"

section \<open>Notions used to state the properties\<close>

text \<open>The key of a row of the tile table.\<close>

definition tile_key :: "tile \<Rightarrow> int \<times> int \<times> int" where
  "tile_key r = (zoom_level r, tile_column r, tile_row r)"


text \<open>
  One tile-matrix record per level, counted from \<open>level\<close>, with the grid width and height
  \<open>ceil(extent / (tileSize * resolution))\<close>.
\<close>

fun level_rows :: "GeoPackage \<Rightarrow> int \<Rightarrow> real list \<Rightarrow> matrix_row list" where
  "level_rows gp level [] = []"
| "level_rows gp level (res # rest) =
     \<lparr> m_table_name = ''gpkg_tiles'', m_zoom_level = level,
       m_matrix_width = \<lceil>(gp_xmax gp - gp_xmin gp) / (of_int (gp_tileSize gp) * res)\<rceil>,
       m_matrix_height = \<lceil>(gp_ymax gp - gp_ymin gp) / (of_int (gp_tileSize gp) * res)\<rceil>,
       m_tile_width = gp_tileSize gp, m_tile_height = gp_tileSize gp,
       m_pixel_x_size = res, m_pixel_y_size = res \<rparr> # level_rows gp (level + 1) rest"

text \<open>
  A database after its initialization for the cache \<open>gp\<close> at time \<open>t\<close>: the application id,
  the five tables, one contents row, one record of the spatial reference system, one
  tile-matrix-set record, the tile-matrix records of all levels, and no tile.
\<close>

definition initialized :: "GeoPackage \<Rightarrow> int \<Rightarrow> database \<Rightarrow> database" where
  "initialized gp t db =
     db\<lparr> application_id := 1196437808,
         gpkg_contents := Some (Rows [\<lparr> c_table_name = ''gpkg_tiles'', c_data_type = ''tiles'',
             c_identifier = gp_name gp, c_description = ''Created with BlenderGIS'',
             c_last_change = t,
             c_min_x = gp_xmin gp, c_min_y = gp_ymin gp,
             c_max_x = gp_xmax gp, c_max_y = gp_ymax gp, c_srs_id = gp_crs gp \<rparr>]),
         gpkg_spatial_ref_sys := Some (Rows [\<lparr> s_srs_name = str_int (gp_crs gp),
             s_srs_id = gp_crs gp, s_organization = ''EPSG'',
             s_organization_coordsys_id = gp_crs gp, s_definition = [],
             s_description = None \<rparr>]),
         gpkg_tile_matrix_set := Some (Rows [\<lparr> ms_table_name = ''gpkg_tiles'',
             ms_srs_id = gp_crs gp, ms_min_x = gp_xmin gp, ms_min_y = gp_ymin gp,
             ms_max_x = gp_xmax gp, ms_max_y = gp_ymax gp \<rparr>]),
         gpkg_tile_matrix := Some (Rows (level_rows gp 0 (gp_resolutions gp))),
         gpkg_tiles := Some (Rows []) \<rparr>"

section \<open>Example inputs\<close>

text \<open>The built-in behaviour of \<^verbatim>\<open>reproj\<close> for an unsupported pair when osr is absent.\<close>

definition no_reproj :: reproj where
  "no_reproj crs1 crs2 x y = Inl NotImplementedError"

text \<open>A south-west grid whose resolutions are computed, and the matrix built from it.\<close>

definition sw_grid :: gridDef where
  "sw_grid = \<lparr> g_CRS = 3857, g_bbox = (0, 0, 512, 512), g_bboxCRS = 3857, g_tileSize = 256,
     g_originLoc = ''SW'', g_resolutions = None, g_initRes = None, g_resFactor = Some 2,
     g_nbLevels = None \<rparr>"

definition sw_tm :: TileMatrix where
  "sw_tm = \<lparr> CRS = 3857, tileSize = 256, originLoc = ''SW'',
     xmin = 0, ymin = 0, xmax = 512, ymax = 512, originx = 0, originy = 0,
     resolutions = None, initRes = Some 2, resFactor = Some 2, nbLevels = 24 \<rparr>"

text \<open>A north-west grid with an explicit list of two resolutions.\<close>

definition nw_grid :: gridDef where
  "nw_grid = \<lparr> g_CRS = 3857, g_bbox = (0, 0, 512, 512), g_bboxCRS = 3857, g_tileSize = 256,
     g_originLoc = ''NW'', g_resolutions = Some [2, 1], g_initRes = None, g_resFactor = None,
     g_nbLevels = None \<rparr>"

definition nw_tm :: TileMatrix where
  "nw_tm = \<lparr> CRS = 3857, tileSize = 256, originLoc = ''NW'',
     xmin = 0, ymin = 0, xmax = 512, ymax = 512, originx = 0, originy = 512,
     resolutions = Some [2, 1], initRes = None, resFactor = None, nbLevels = 2 \<rparr>"

text \<open>A cache file for the north-west grid, and worlds in which it has various contents.\<close>

definition cache_path :: string where
  "cache_path = ''/tmp/OSM_MAPNIK.gpkg''"

definition cache_gp :: GeoPackage where
  "cache_gp = GeoPackage_attrs cache_path nw_tm [2, 1]"

definition stored_tile :: tile where
  "stored_tile = \<lparr> tile_id = 1, zoom_level = 1, tile_column = 0, tile_row = 1,
     tile_data = ''PNG1'', last_modified = Some 0 \<rparr>"

definition cache_db :: "tile list \<Rightarrow> database" where
  "cache_db ts = \<lparr> application_id = 1196437808, gpkg_contents = Some (Rows []),
     gpkg_spatial_ref_sys = Some (Rows []), gpkg_tile_matrix_set = Some (Rows []),
     gpkg_tile_matrix = Some (Rows []), gpkg_tiles = Some (Rows ts), tiles_seq = 1 \<rparr>"

definition cache_world :: "tile list \<Rightarrow> int \<Rightarrow> world" where
  "cache_world ts t = \<lparr> files = [cache_path \<mapsto> Database (cache_db ts)], now = t, log = [] \<rparr>"

text \<open>
  A database that has the five tables already, under another application id
  (1196444487, the id of later versions of the GeoPackage format).
\<close>

definition foreign_db :: database where
  "foreign_db = \<lparr> application_id = 1196444487, gpkg_contents = Some (Rows []),
     gpkg_spatial_ref_sys = Some (Rows []), gpkg_tile_matrix_set = Some (Rows []),
     gpkg_tile_matrix = Some (Rows []), gpkg_tiles = Some (Rows []), tiles_seq = 0 \<rparr>"

definition foreign_world :: world where
  "foreign_world = \<lparr> files = [cache_path \<mapsto> Database foreign_db], now = 0, log = [] \<rparr>"

text \<open>A file that is an empty database.\<close>

definition blank_world :: world where
  "blank_world = \<lparr> files = [cache_path \<mapsto> Database empty_db], now = 0, log = [] \<rparr>"

text \<open>
  A map on the north-west grid whose layer has its cache open, a WMS variant of it with a
  given protocol version and CRS, and an environment in which every request gets one given
  answer, images start with the letters PNG, and three floats have a text.
\<close>

definition example_layer :: Layer where
  "example_layer = \<lparr> urlKey = Some ''osm'', format = Some ''png'', style = Some ''default'' \<rparr>"

definition example_map :: MapImage where
  "example_map = \<lparr> srcKey = ''OSM'', cacheFolder = ''/tmp/'', service = ''TMS'',
     quadTree = False, urlTemplate = Template ''http://t/{LAY}/{Z}/{X}/{Y}'', matrix = None,
     layers = [''MAPNIK'' \<mapsto> example_layer], tm1 = nw_tm, tm2 = nw_tm,
     caches = [''MAPNIK'' \<mapsto> cache_gp], layKey = ''MAPNIK'', zoom = 1, running = True,
     col1 = 0, row1 = 0, mosaic = [], cptTiles = 0 \<rparr>"

definition wms_map :: "string \<Rightarrow> int \<Rightarrow> MapImage" where
  "wms_map v crs = example_map\<lparr> service := ''WMS'',
     urlTemplate := TemplateDict [(''BASE_URL'', ''http://w''), (''VERSION'', v),
        (''LAYERS'', ''{LAY}''), (''BBOX'', ''{BBOX}'')],
     tm1 := nw_tm\<lparr>CRS := crs\<rparr> \<rparr>"

definition example_env :: "bytes option \<Rightarrow> env" where
  "example_env answer = \<lparr> str_float = (\<lambda>r. if r = 0 then ''0.0'' else if r = 256 then ''256.0''
        else if r = 512 then ''512.0'' else ''nan''),
     what = (\<lambda>d. if take 3 d = ''PNG'' then Some ''png'' else None),
     urlopen = (\<lambda>u. answer),
     image_open = (\<lambda>d. take 3 d = ''PNG'') \<rparr>"

text \<open>
  A database left by a run of \<^verbatim>\<open>create\<close> that stopped after its first table: the
  application id is set and \<^verbatim>\<open>gpkg_contents\<close> exists, the other four tables do not.
\<close>

definition partial_db :: database where
  "partial_db = \<lparr> application_id = 1196437808, gpkg_contents = Some (Rows []),
     gpkg_spatial_ref_sys = None, gpkg_tile_matrix_set = None,
     gpkg_tile_matrix = None, gpkg_tiles = None, tiles_seq = 0 \<rparr>"

definition partial_world :: world where
  "partial_world = \<lparr> files = [cache_path \<mapsto> Database partial_db], now = 0, log = [] \<rparr>"

text \<open>The map before its first request, and a world without any file.\<close>

definition fresh_map :: MapImage where
  "fresh_map = example_map\<lparr>caches := Map.empty\<rparr>"

definition fresh_world :: world where
  "fresh_world = \<lparr> files = Map.empty, now = 0, log = [] \<rparr>"

section \<open>Tile index arithmetic\<close>

lemma sw_tm_init: "TileMatrix_init no_reproj sw_grid = Inr sw_tm"
  by (simp add: TileMatrix_init_def sw_grid_def sw_tm_def py_truediv_def defaultNbLevels_def)

lemma nw_tm_init: "TileMatrix_init no_reproj nw_grid = Inr nw_tm"
  by (simp add: TileMatrix_init_def nw_grid_def nw_tm_def)

lemma floor_mult_div_cancel:
  fixes g :: real
  assumes "g \<noteq> 0"
  shows "\<lfloor>(of_int k * g) / g\<rfloor> = k"
  using assms by simp

lemma getTileCoords_val:
  "getRes tm z = Inr res \<Longrightarrow>
   getTileCoords tm col row z =
     Inr (originx tm + of_int col * (of_int (tileSize tm) * res),
          if originLoc tm = ''NW'' then originy tm - of_int row * (of_int (tileSize tm) * res)
          else originy tm + of_int row * (of_int (tileSize tm) * res) + of_int (tileSize tm) * res)"
  by (simp add: getTileCoords_def Let_def)

text \<open>
  C1 (as stated, for a south-west origin): under exact arithmetic the round trip is not the
  identity. On the matrix built from \<open>sw_grid\<close>, tile (0, 0) at zoom 0 has the top-left
  corner (0, 512), and \<open>getTileNumber\<close> maps that corner to tile (0, 1), not to (0, 0).
  All numbers here are represented exactly by doubles as well.
\<close>

theorem roundtrip_SW_counterexample:
  "getTileCoords sw_tm 0 0 0 = Inr (0, 512) \<and>
   getTileNumber sw_tm 0 512 0 = Inr (0, 1) \<and>
   getTileNumber sw_tm 0 512 0 \<noteq> Inr (0, 0)"
  by (simp add: getTileCoords_def getTileNumber_def getRes_def sw_tm_def py_pow_def
      py_truediv_def)

text \<open>
  C1 (amended): under exact arithmetic (the coordinates of this model are exact reals, not
  the doubles of the program), for every tile matrix with a tile size other than zero, every
  zoom level with positive resolution and every integer column and row, \<open>getTileCoords\<close>
  returns a coordinate pair, and \<open>getTileNumber\<close> applied to it at the same zoom returns
  exactly (column, row) when the origin is north-west, and (column, row + 1) otherwise
  (south-west), because the returned y is the top edge of the tile, which is the bottom
  edge of the next row.
\<close>

theorem getTileNumber_getTileCoords:
  assumes r: "getRes tm z = Inr res" and "0 < res" and "tileSize tm \<noteq> 0"
  shows "\<exists>x y. getTileCoords tm col row z = Inr (x, y) \<and>
    getTileNumber tm x y z = Inr (col, if originLoc tm = ''NW'' then row else row + 1)"
proof -
  define g where "g = of_int (tileSize tm) * res"
  have g: "g \<noteq> 0" using assms by (simp add: g_def)
  have c: "\<lfloor>(of_int col * g) / g\<rfloor> = col" using g by (rule floor_mult_div_cancel)
  have r1: "\<lfloor>(of_int row * g) / g\<rfloor> = row" using g by (rule floor_mult_div_cancel)
  have "of_int row * g + g = of_int (row + 1) * g" by (simp add: algebra_simps)
  then have r2: "\<lfloor>(of_int row * g + g) / g\<rfloor> = row + 1"
    using floor_mult_div_cancel [OF g, of "row + 1"] by simp
  show ?thesis
    using g c r1 r2 unfolding getTileCoords_val [OF r]
    by (simp add: getTileNumber_def r py_truediv_def Let_def g_def [symmetric])
qed

theorem getTileNumber_getTileCoords_witness:
  "getRes nw_tm 1 = Inr 1 \<and> (0::real) < 1 \<and> tileSize nw_tm \<noteq> 0 \<and>
   getTileCoords nw_tm 1 1 1 = Inr (256, 256) \<and>
   getTileNumber nw_tm 256 256 1 = Inr (1, 1) \<and>
   getRes sw_tm 1 = Inr 1 \<and> tileSize sw_tm \<noteq> 0 \<and>
   getTileCoords sw_tm 1 1 1 = Inr (256, 512) \<and>
   getTileNumber sw_tm 256 512 1 = Inr (1, 2)"
proof -
  have r: "getRes nw_tm 1 = Inr 1"
    by (simp add: getRes_def nw_tm_def py_index_def)
  have c: "getTileCoords nw_tm 1 1 1 = Inr (256, 256)"
    by (simp add: getTileCoords_def r) (simp add: nw_tm_def)
  have t: "tileSize nw_tm \<noteq> 0" by (simp add: nw_tm_def)
  from getTileNumber_getTileCoords [OF r _ t, of 1 1]
  have n: "getTileNumber nw_tm 256 256 1 = Inr (1, 1)"
    unfolding c by (simp add: nw_tm_def)
  have r': "getRes sw_tm 1 = Inr 1"
    by (simp add: getRes_def sw_tm_def py_pow_def py_truediv_def)
  have c': "getTileCoords sw_tm 1 1 1 = Inr (256, 512)"
    by (simp add: getTileCoords_def r') (simp add: sw_tm_def)
  have t': "tileSize sw_tm \<noteq> 0" by (simp add: sw_tm_def)
  from getTileNumber_getTileCoords [OF r' _ t', of 1 1]
  have n': "getTileNumber sw_tm 256 512 1 = Inr (1, 2)"
    unfolding c' by (simp add: sw_tm_def)
  from r c t n r' c' t' n' show ?thesis by simp
qed

section \<open>Resolution lookup\<close>

lemma getRes_valid_index:
  "resolutions tm = Some rs \<Longrightarrow> 0 \<le> z \<Longrightarrow> z < int (length rs) \<Longrightarrow>
   getRes tm z = Inr (rs ! nat z)"
  by (simp add: getRes_def py_index_def)

lemma getRes_beyond_list:
  "resolutions tm = Some rs \<Longrightarrow> int (length rs) \<le> z \<Longrightarrow> getRes tm z = Inl IndexError"
  by (simp add: getRes_def py_index_def Let_def)

text \<open>
  C2: on the matrix built from \<open>nw_grid\<close>, whose list has two resolutions, \<open>getRes\<close> returns
  the entries at zoom 0 and 1, and raises IndexError at zoom 2 (the length) and at zoom 5,
  where the claim expects the last entry, 1: the guard compares with \<^verbatim>\<open>>\<close> and clamps to
  the length, one past the last index.
\<close>

theorem getRes_clamp_raises:
  "getRes nw_tm 0 = Inr 2 \<and> getRes nw_tm 1 = Inr 1 \<and>
   getRes nw_tm 2 = Inl IndexError \<and> getRes nw_tm 5 = Inl IndexError"
  by (simp add: getRes_def nw_tm_def py_index_def)

section \<open>Quad keys\<close>

lemma foldl_append_concat:
  "foldl (\<lambda>q i. q @ f i) acc xs = acc @ concat (map f xs)"
  by (induction xs arbitrary: acc) simp_all

lemma and_mask_bit: "(x AND push_bit n (1::int) \<noteq> 0) = bit x n"
  by (simp add: and_exp_eq_0_iff_not_bit)

lemma quad_digit_bits:
  "1 \<le> i \<Longrightarrow> quad_digit x y i =
     (if bit x (nat (i - 1)) then 1 else 0) + (if bit y (nat (i - 1)) then 2 else 0)"
  unfolding quad_digit_def Let_def and_mask_bit by simp

lemma str_int_digit: "0 \<le> d \<Longrightarrow> d < 10 \<Longrightarrow> str_int d = [digit_char (nat d)]"
  by (simp add: str_int_def)

lemma getQuadKey_map:
  "getQuadKey x y z = map (\<lambda>i. digit_char (nat (quad_digit x y i))) (range_down z)"
proof -
  have "\<And>i. i \<in> set (range_down z) \<Longrightarrow>
      str_int (quad_digit x y i) = [digit_char (nat (quad_digit x y i))]"
    by (rule str_int_digit) (auto simp: quad_digit_def Let_def)
  then have "concat (map (\<lambda>i. str_int (quad_digit x y i)) (range_down z)) =
     concat (map (\<lambda>i. [digit_char (nat (quad_digit x y i))]) (range_down z))"
    by (metis (mono_tags, lifting) map_eq_conv)
  then show ?thesis
    by (simp add: getQuadKey_def foldl_append_concat)
qed

lemma range_down_nth: "i < nat z \<Longrightarrow> range_down z ! i = z - int i"
proof -
  assume a: "i < nat z"
  then have "1 + int (nat z - Suc i) \<le> z" by linarith
  then have "[1..z] ! (nat z - Suc i) = 1 + int (nat z - Suc i)" by (rule nth_upto)
  with a show ?thesis by (simp add: range_down_def rev_nth)
qed

lemma length_range_down: "length (range_down z) = nat z"
  by (simp add: range_down_def)

text \<open>
  C6: for non-negative column, row and zoom, the quad key has exactly \<open>zoom\<close> characters;
  its i-th character (from the left, starting at 0) is the digit
  1 * (bit \<open>zoom - 1 - i\<close> of the column) + 2 * (bit \<open>zoom - 1 - i\<close> of the row), one of
  0, 1, 2, 3; \<open>getQuadKey 3 5 3\<close> is "213", and the key at zoom 0 is empty.
\<close>

theorem getQuadKey_digits:
  assumes "0 \<le> col" and "0 \<le> row" and "0 \<le> z"
  shows "length (getQuadKey col row z) = nat z \<and>
         (\<forall>i < nat z.
            getQuadKey col row z ! i =
              digit_char ((if bit col (nat z - 1 - i) then 1 else 0) +
                          (if bit row (nat z - 1 - i) then 2 else 0)) \<and>
            getQuadKey col row z ! i \<in> set ''0123'') \<and>
         getQuadKey 3 5 3 = ''213'' \<and>
         getQuadKey col row 0 = []"
proof (intro conjI allI impI)
  show "length (getQuadKey col row z) = nat z"
    by (simp add: getQuadKey_map length_range_down)
next
  fix i assume i: "i < nat z"
  then have n: "nat (z - int i - 1) = nat z - 1 - i" by linarith
  from i have "1 \<le> z - int i" by linarith
  then have q: "quad_digit col row (z - int i) =
      (if bit col (nat z - 1 - i) then 1 else 0) + (if bit row (nat z - 1 - i) then 2 else 0)"
    using quad_digit_bits [of "z - int i" col row] n by simp
  have k: "getQuadKey col row z ! i = digit_char (nat (quad_digit col row (z - int i)))"
    using i by (simp add: getQuadKey_map length_range_down range_down_nth)
  show "getQuadKey col row z ! i =
      digit_char ((if bit col (nat z - 1 - i) then 1 else 0) +
                  (if bit row (nat z - 1 - i) then 2 else 0))"
    unfolding k q by (simp add: numeral_2_eq_2 numeral_3_eq_3)
  show "getQuadKey col row z ! i \<in> set ''0123''"
    unfolding k q by (simp add: digit_char_def)
next
  show "getQuadKey 3 5 3 = ''213''"
    by (simp add: getQuadKey_def range_down_def quad_digit_def str_int_def digit_char_def
        upto.simps)
next
  show "getQuadKey col row 0 = []"
    by (simp add: getQuadKey_def range_down_def)
qed

theorem getQuadKey_digits_witness:
  "(0::int) \<le> 6 \<and> (0::int) \<le> 9 \<and> (0::int) \<le> 4 \<and>
   getQuadKey 6 9 4 = ''2112'' \<and> length (getQuadKey 6 9 4) = nat 4 \<and>
   getQuadKey 6 9 4 ! 0 = digit_char 2 \<and> getQuadKey 6 9 4 ! 3 = digit_char 2"
  using getQuadKey_digits [of 6 9 4]
  by (simp add: getQuadKey_def range_down_def quad_digit_def str_int_def digit_char_def
      upto.simps)

section \<open>The cache file\<close>

lemma connect_db: "files w p = Some (Database db) \<Longrightarrow> connect w p = Inr db"
  by (simp add: connect_def)

lemma connect_store: "connect (store w p db) p = Inr db"
  by (simp add: connect_def store_def)

lemma files_store: "files (store w p db) p = Some (Database db)"
  by (simp add: store_def)

lemma store_store: "store (store w p a) p b = store w p b"
  by (simp add: store_def)

lemma now_store: "now (store w p db) = now w"
  by (simp add: store_def)

lemma log_store: "log (store w p db) = log w"
  by (simp add: store_def)

lemma rows_of_Rows: "t = Some (Rows rs) \<Longrightarrow> rows_of t = Inr rs"
  by (simp add: rows_of_def)

subsection \<open>Initialization\<close>

lemma insert_levels_fresh:
  assumes "\<forall>res\<in>set rl. of_int (gp_tileSize gp) * res \<noteq> 0"
    and "\<forall>r\<in>set rows. m_zoom_level r < k"
  shows "insert_levels gp k rl rows = Inr (rows @ level_rows gp k rl)"
  using assms
proof (induction rl arbitrary: k rows)
  case Nil
  then show ?case by simp
next
  case (Cons res rest)
  let ?r = "\<lparr> m_table_name = ''gpkg_tiles'', m_zoom_level = k,
       m_matrix_width = \<lceil>(gp_xmax gp - gp_xmin gp) / (of_int (gp_tileSize gp) * res)\<rceil>,
       m_matrix_height = \<lceil>(gp_ymax gp - gp_ymin gp) / (of_int (gp_tileSize gp) * res)\<rceil>,
       m_tile_width = gp_tileSize gp, m_tile_height = gp_tileSize gp,
       m_pixel_x_size = res, m_pixel_y_size = res \<rparr>"
  have nz: "of_int (gp_tileSize gp) * res \<noteq> 0" using Cons.prems(1) by simp
  have keep: "filter (\<lambda>r'. \<not> matrix_conflict ?r r') rows = rows"
    using Cons.prems(2) by (auto simp: filter_id_conv matrix_conflict_def)
  have ins: "insert_or_replace matrix_conflict ?r rows = rows @ [?r]"
    by (simp add: insert_or_replace_def keep)
  have "\<forall>r\<in>set (rows @ [?r]). m_zoom_level r < k + 1"
    using Cons.prems(2) by auto
  moreover have "\<forall>res\<in>set rest. of_int (gp_tileSize gp) * res \<noteq> 0"
    using Cons.prems(1) by simp
  ultimately have "insert_levels gp (k + 1) rest (rows @ [?r]) =
      Inr ((rows @ [?r]) @ level_rows gp (k + 1) rest)"
    by (rule Cons.IH [rotated])
  then show ?case
    using nz by (simp add: ceil_div_def ins)
qed

lemma isGPKG_no_contents:
  "files w (dbPath gp) = Some (Database db) \<Longrightarrow> gpkg_contents db = None \<Longrightarrow>
   isGPKG gp w = Inr False"
  by (simp add: isGPKG_def select_ok_def)

lemma isGPKG_absent: "files w (dbPath gp) = None \<Longrightarrow> isGPKG gp w = Inr False"
  by (simp add: isGPKG_def)

lemma create_fresh:
  assumes "connect w (dbPath gp) = Inr db"
    and "gpkg_contents db = None" and "gpkg_spatial_ref_sys db = None"
    and "gpkg_tile_matrix_set db = None" and "gpkg_tile_matrix db = None"
    and "gpkg_tiles db = None"
  shows "create gp w = Inr (store w (dbPath gp)
    (db\<lparr>application_id := 1196437808, gpkg_contents := Some (Rows []),
        gpkg_spatial_ref_sys := Some (Rows []), gpkg_tile_matrix_set := Some (Rows []),
        gpkg_tile_matrix := Some (Rows []), gpkg_tiles := Some (Rows [])\<rparr>))"
  using assms by (simp add: create_def Let_def)

lemma create_taken:
  "files w (dbPath gp) = Some (Database db) \<Longrightarrow> gpkg_contents db \<noteq> None \<Longrightarrow>
   create gp w = Inl OperationalError"
  by (simp add: create_def connect_db Let_def)

lemma insertMetadata_fresh:
  assumes "files w (dbPath gp) = Some (Database db)" and "gpkg_contents db = Some (Rows [])"
  shows "insertMetadata gp w = Inr (store w (dbPath gp)
    (db\<lparr>gpkg_contents := Some (Rows [\<lparr> c_table_name = ''gpkg_tiles'', c_data_type = ''tiles'',
             c_identifier = gp_name gp, c_description = ''Created with BlenderGIS'',
             c_last_change = now w,
             c_min_x = gp_xmin gp, c_min_y = gp_ymin gp,
             c_max_x = gp_xmax gp, c_max_y = gp_ymax gp, c_srs_id = gp_crs gp \<rparr>])\<rparr>))"
  using assms by (simp add: insertMetadata_def connect_db rows_of_def insert_row_def)

lemma insertCRS_fresh:
  assumes "files w (dbPath gp) = Some (Database db)" and "gpkg_spatial_ref_sys db = Some (Rows [])"
  shows "insertCRS gp code name wkt w = Inr (store w (dbPath gp)
    (db\<lparr>gpkg_spatial_ref_sys := Some (Rows [\<lparr> s_srs_name = name, s_srs_id = code,
             s_organization = ''EPSG'', s_organization_coordsys_id = code, s_definition = wkt,
             s_description = None \<rparr>])\<rparr>))"
  using assms by (simp add: insertCRS_def connect_db rows_of_def insert_row_def)

lemma insertTileMatrixSet_fresh:
  assumes "files w (dbPath gp) = Some (Database db)"
    and "gpkg_tile_matrix_set db = Some (Rows [])" and "gpkg_tile_matrix db = Some (Rows [])"
    and nz: "\<forall>res\<in>set (gp_resolutions gp). of_int (gp_tileSize gp) * res \<noteq> 0"
  shows "insertTileMatrixSet gp w = Inr (store w (dbPath gp)
    (db\<lparr>gpkg_tile_matrix_set := Some (Rows [\<lparr> ms_table_name = ''gpkg_tiles'',
             ms_srs_id = gp_crs gp, ms_min_x = gp_xmin gp, ms_min_y = gp_ymin gp,
             ms_max_x = gp_xmax gp, ms_max_y = gp_ymax gp \<rparr>]),
         gpkg_tile_matrix := Some (Rows (level_rows gp 0 (gp_resolutions gp)))\<rparr>))"
proof -
  have "insert_levels gp 0 (gp_resolutions gp) [] = Inr ([] @ level_rows gp 0 (gp_resolutions gp))"
    using nz by (rule insert_levels_fresh) simp
  then show ?thesis
    using assms(1-3)
    by (simp add: insertTileMatrixSet_def connect_db rows_of_def insert_or_replace_def)
qed

lemma getResList_nw_tm: "getResList nw_tm = Inr [2, 1]"
  by (simp add: getResList_def nw_tm_def)

lemma cache_gp_path: "dbPath cache_gp = cache_path"
  by (simp add: cache_gp_def GeoPackage_attrs_def)

text \<open>
  C3: two files that exist and fail the validity check. The file of \<open>foreign_world\<close> has
  another application id; the file of \<open>partial_world\<close> lacks four of the tables. On both,
  constructing a GeoPackage raises OperationalError instead of initializing the file again:
  \<^verbatim>\<open>create\<close> issues \<^verbatim>\<open>CREATE TABLE gpkg_contents\<close> on a database that has this table.
\<close>

theorem GeoPackage_init_existing_tables_raises:
  "files foreign_world cache_path = Some (Database foreign_db) \<and>
   application_id foreign_db \<noteq> 1196437808 \<and>
   isGPKG cache_gp foreign_world = Inr False \<and>
   GeoPackage_init cache_path nw_tm foreign_world = Inl OperationalError \<and>
   files partial_world cache_path = Some (Database partial_db) \<and>
   gpkg_tiles partial_db = None \<and>
   isGPKG cache_gp partial_world = Inr False \<and>
   GeoPackage_init cache_path nw_tm partial_world = Inl OperationalError"
proof -
  have f: "files foreign_world (dbPath cache_gp) = Some (Database foreign_db)"
    by (simp add: foreign_world_def cache_gp_path)
  have a: "application_id foreign_db \<noteq> 1196437808" by (simp add: foreign_db_def)
  have v: "isGPKG cache_gp foreign_world = Inr False"
    using a by (simp add: isGPKG_def f)
  have c: "create cache_gp foreign_world = Inl OperationalError"
    using f by (rule create_taken) (simp add: foreign_db_def)
  have i: "GeoPackage_init cache_path nw_tm foreign_world = Inl OperationalError"
    by (simp add: GeoPackage_init_def getResList_nw_tm cache_gp_def [symmetric] v c)
  have f': "files partial_world (dbPath cache_gp) = Some (Database partial_db)"
    by (simp add: partial_world_def cache_gp_path)
  have a': "gpkg_tiles partial_db = None" by (simp add: partial_db_def)
  have v': "isGPKG cache_gp partial_world = Inr False"
    by (simp add: isGPKG_def f' select_ok_def partial_db_def)
  have c': "create cache_gp partial_world = Inl OperationalError"
    using f' by (rule create_taken) (simp add: partial_db_def)
  have i': "GeoPackage_init cache_path nw_tm partial_world = Inl OperationalError"
    by (simp add: GeoPackage_init_def getResList_nw_tm cache_gp_def [symmetric] v' c')
  from f a v i f' a' v' i' show ?thesis by (simp add: cache_gp_path)
qed

text \<open>
  Where none of the five names is taken, the constructor initializes the database: the
  application id, the five tables, one contents row, one record of the spatial reference
  system, one tile-matrix-set record and one tile-matrix record per level. This needs the
  list of resolutions to be computed without error, with \<open>tileSize * resolution \<noteq> 0\<close> at
  every level.
\<close>

lemma GeoPackage_init_fresh:
  assumes cn: "connect w path = Inr db"
    and v: "isGPKG (GeoPackage_attrs path tm rl) w = Inr False"
    and free: "gpkg_contents db = None" "gpkg_spatial_ref_sys db = None"
      "gpkg_tile_matrix_set db = None" "gpkg_tile_matrix db = None" "gpkg_tiles db = None"
    and rl: "getResList tm = Inr rl"
    and nz: "\<forall>res\<in>set rl. of_int (tileSize tm) * res \<noteq> 0"
  shows "GeoPackage_init path tm w =
       Inr (GeoPackage_attrs path tm rl,
            store w path (initialized (GeoPackage_attrs path tm rl) (now w) db))"
proof -
  define gp where "gp = GeoPackage_attrs path tm rl"
  have p: "dbPath gp = path" and r: "gp_resolutions gp = rl" and ts: "gp_tileSize gp = tileSize tm"
    by (simp_all add: gp_def GeoPackage_attrs_def)
  have cn': "connect w (dbPath gp) = Inr db" using cn p by simp
  have v': "isGPKG gp w = Inr False" using v by (simp add: gp_def)
  define db1 where "db1 = db\<lparr>application_id := 1196437808, gpkg_contents := Some (Rows []),
        gpkg_spatial_ref_sys := Some (Rows []), gpkg_tile_matrix_set := Some (Rows []),
        gpkg_tile_matrix := Some (Rows []), gpkg_tiles := Some (Rows [])\<rparr>"
  have c: "create gp w = Inr (store w (dbPath gp) db1)"
    unfolding db1_def using cn' free by (rule create_fresh)
  have c1: "gpkg_contents db1 = Some (Rows [])" by (simp add: db1_def)
  define db2 where "db2 = db1\<lparr>gpkg_contents := Some (Rows [\<lparr> c_table_name = ''gpkg_tiles'',
             c_data_type = ''tiles'',
             c_identifier = gp_name gp, c_description = ''Created with BlenderGIS'',
             c_last_change = now w,
             c_min_x = gp_xmin gp, c_min_y = gp_ymin gp,
             c_max_x = gp_xmax gp, c_max_y = gp_ymax gp, c_srs_id = gp_crs gp \<rparr>])\<rparr>"
  have m: "insertMetadata gp (store w (dbPath gp) db1) = Inr (store w (dbPath gp) db2)"
    unfolding db2_def
    using insertMetadata_fresh [OF files_store c1, where gp = gp and w1 = w]
    by (simp add: store_store now_store)
  have c2: "gpkg_spatial_ref_sys db2 = Some (Rows [])" by (simp add: db2_def db1_def)
  define db3 where "db3 = db2\<lparr>gpkg_spatial_ref_sys := Some (Rows [\<lparr> s_srs_name = str_int (gp_crs gp),
             s_srs_id = gp_crs gp,
             s_organization = ''EPSG'', s_organization_coordsys_id = gp_crs gp, s_definition = [],
             s_description = None \<rparr>])\<rparr>"
  have s: "insertCRS gp (gp_crs gp) (str_int (gp_crs gp)) [] (store w (dbPath gp) db2) =
      Inr (store w (dbPath gp) db3)"
    unfolding db3_def
    using insertCRS_fresh [OF files_store c2, where gp = gp and w1 = w]
    by (simp add: store_store)
  have nz': "\<forall>res\<in>set (gp_resolutions gp). of_int (gp_tileSize gp) * res \<noteq> 0"
    using nz by (simp add: r ts)
  have c3: "gpkg_tile_matrix_set db3 = Some (Rows [])" "gpkg_tile_matrix db3 = Some (Rows [])"
    by (simp_all add: db3_def db2_def db1_def)
  have fin: "db3\<lparr>gpkg_tile_matrix_set := Some (Rows [\<lparr> ms_table_name = ''gpkg_tiles'',
             ms_srs_id = gp_crs gp, ms_min_x = gp_xmin gp, ms_min_y = gp_ymin gp,
             ms_max_x = gp_xmax gp, ms_max_y = gp_ymax gp \<rparr>]),
         gpkg_tile_matrix := Some (Rows (level_rows gp 0 (gp_resolutions gp)))\<rparr> =
      initialized gp (now w) db"
    by (simp add: db3_def db2_def db1_def initialized_def)
  have t: "insertTileMatrixSet gp (store w (dbPath gp) db3) =
      Inr (store w (dbPath gp) (initialized gp (now w) db))"
    unfolding fin [symmetric]
    using insertTileMatrixSet_fresh [OF files_store c3 nz', where w1 = w]
    by (simp add: store_store)
  have "GeoPackage_init path tm w = Inr (gp, store w path (initialized gp (now w) db))"
    unfolding GeoPackage_init_def rl
    by (simp add: gp_def [symmetric] v' c [unfolded p] m [unfolded p] s [unfolded p] t [unfolded p])
  then show ?thesis by (simp add: gp_def)
qed

lemma GeoPackage_init_blank_file:
  "GeoPackage_init cache_path nw_tm blank_world =
     Inr (cache_gp, store blank_world cache_path (initialized cache_gp 0 empty_db)) \<and>
   isGPKG cache_gp (store blank_world cache_path (initialized cache_gp 0 empty_db)) = Inr True"
proof -
  have f: "files blank_world cache_path = Some (Database empty_db)"
    by (simp add: blank_world_def)
  have nz: "\<forall>res\<in>set [2, 1]. of_int (tileSize nw_tm) * res \<noteq> (0::real)"
    by (simp add: nw_tm_def)
  have n: "now blank_world = 0" by (simp add: blank_world_def)
  have v0: "isGPKG (GeoPackage_attrs cache_path nw_tm [2, 1]) blank_world = Inr False"
    unfolding cache_gp_def [symmetric]
    by (rule isGPKG_no_contents [of _ _ empty_db]) (simp_all add: f cache_gp_path empty_db_def)
  note r = GeoPackage_init_fresh [OF connect_db [OF f] v0 _ _ _ _ _ getResList_nw_tm nz,
      unfolded cache_gp_def [symmetric] n]
  have v: "isGPKG cache_gp (store blank_world cache_path (initialized cache_gp 0 empty_db)) = Inr True"
    by (simp add: isGPKG_def cache_gp_path files_store initialized_def select_ok_def)
  show ?thesis
    using r v by (simp add: empty_db_def)
qed

subsection \<open>Reading a tile\<close>


lemma cache_world_file:
  "files (cache_world ts t) (dbPath cache_gp) = Some (Database (cache_db ts))"
  by (simp add: cache_world_def cache_gp_path)

lemma cache_db_tiles: "gpkg_tiles (cache_db ts) = Some (Rows ts)"
  by (simp add: cache_db_def)



subsection \<open>Writing a tile\<close>

lemma distinct_insert_or_replace:
  assumes "distinct (map tile_key rs)"
  shows "distinct (map tile_key (insert_or_replace tile_conflict r rs))"
proof -
  have "distinct (map tile_key (filter (\<lambda>r'. \<not> tile_conflict r r') rs))"
    using assms by (rule distinct_map_filter)
  moreover have "tile_key r \<notin> tile_key ` set (filter (\<lambda>r'. \<not> tile_conflict r r') rs)"
    by (auto simp: tile_conflict_def tile_key_def)
  ultimately show ?thesis by (simp add: insert_or_replace_def)
qed

lemma filter_insert_or_replace:
  assumes a: "tile_at z x y r"
  shows "filter (tile_at z x y) (insert_or_replace tile_conflict r rs) = [r]"
proof -
  have "filter (tile_at z x y) (filter (\<lambda>r'. \<not> tile_conflict r r') rs) = []"
    using a by (auto simp: filter_empty_conv tile_conflict_def tile_at_def)
  with a show ?thesis by (simp add: insert_or_replace_def)
qed

text \<open>The row that \<open>putTile\<close> writes, and the database after it.\<close>

lemma putTile_val:
  assumes f: "files w (dbPath gp) = Some (Database db)" and t: "gpkg_tiles db = Some (Rows rs)"
  shows "putTile gp x y z d w =
     Inr ((store w (dbPath gp)
        (db\<lparr>gpkg_tiles := Some (Rows (insert_or_replace tile_conflict
               \<lparr> tile_id = next_id db rs, zoom_level = z, tile_column = x,
                 tile_row = y, tile_data = d, last_modified = Some (sql_now w) \<rparr> rs)),
             tiles_seq := next_id db rs\<rparr>))\<lparr>log := log w @ [TileWrite z x y d]\<rparr>)"
  by (simp add: putTile_def connect_db [OF f] rows_of_Rows [OF t] Let_def)

lemma putTile_table:
  assumes f: "files w (dbPath gp) = Some (Database db)" and t: "gpkg_tiles db = Some (Rows rs)"
  shows "\<exists>w' db'. putTile gp x y z d w = Inr w' \<and>
     files w' (dbPath gp) = Some (Database db') \<and>
     gpkg_tiles db' = Some (Rows (insert_or_replace tile_conflict
               \<lparr> tile_id = next_id db rs, zoom_level = z, tile_column = x,
                 tile_row = y, tile_data = d, last_modified = Some (sql_now w) \<rparr> rs))"
  unfolding putTile_val [OF f t] by (simp add: files_store)

text \<open>
  C7: if the tile table has at most one row per key (zoom, column, row), it has so after
  \<open>putTile\<close>; and after two calls of \<open>putTile\<close> with the same key, the second at time \<open>t2\<close>
  with the bytes \<open>d2\<close>, the table has exactly one row for that key, which holds \<open>d2\<close> and
  the time stamp of the second call (\<open>t2\<close> cut to whole seconds).
\<close>

theorem putTile_upsert:
  assumes f: "files w (dbPath gp) = Some (Database db)"
    and t: "gpkg_tiles db = Some (Rows rs)"
    and inv: "distinct (map tile_key rs)"
  shows "\<exists>w1 db1 rs1 w2 db2 rs2.
      putTile gp x y z d w = Inr w1 \<and>
      files w1 (dbPath gp) = Some (Database db1) \<and> gpkg_tiles db1 = Some (Rows rs1) \<and>
      distinct (map tile_key rs1) \<and>
      putTile gp x y z d' (w1\<lparr>now := t'\<rparr>) = Inr w2 \<and>
      files w2 (dbPath gp) = Some (Database db2) \<and> gpkg_tiles db2 = Some (Rows rs2) \<and>
      distinct (map tile_key rs2) \<and>
      map (\<lambda>r. (tile_data r, last_modified r)) (filter (tile_at z x y) rs2) =
        [(d', Some (t' - t' mod 1000000))]"
proof -
  from putTile_table [OF f t, of x y z d]
  obtain w1 db1 rs1 where p1: "putTile gp x y z d w = Inr w1"
    and f1: "files w1 (dbPath gp) = Some (Database db1)"
    and t1: "gpkg_tiles db1 = Some (Rows rs1)"
    and r1: "rs1 = insert_or_replace tile_conflict
               \<lparr> tile_id = next_id db rs, zoom_level = z, tile_column = x,
                 tile_row = y, tile_data = d, last_modified = Some (sql_now w) \<rparr> rs"
    by blast
  have i1: "distinct (map tile_key rs1)"
    unfolding r1 using inv by (rule distinct_insert_or_replace)
  have f1': "files (w1\<lparr>now := t'\<rparr>) (dbPath gp) = Some (Database db1)"
    using f1 by simp
  let ?r = "\<lparr> tile_id = next_id db1 rs1, zoom_level = z, tile_column = x,
                 tile_row = y, tile_data = d', last_modified = Some (sql_now (w1\<lparr>now := t'\<rparr>)) \<rparr>"
  from putTile_table [OF f1' t1, of x y z d']
  obtain w2 db2 rs2 where p2: "putTile gp x y z d' (w1\<lparr>now := t'\<rparr>) = Inr w2"
    and f2: "files w2 (dbPath gp) = Some (Database db2)"
    and t2: "gpkg_tiles db2 = Some (Rows rs2)"
    and r2: "rs2 = insert_or_replace tile_conflict ?r rs1"
    by blast
  have i2: "distinct (map tile_key rs2)"
    unfolding r2 using i1 by (rule distinct_insert_or_replace)
  have "tile_at z x y ?r" by (simp add: tile_at_def)
  then have "filter (tile_at z x y) rs2 = [?r]"
    unfolding r2 by (rule filter_insert_or_replace)
  then have e: "map (\<lambda>r. (tile_data r, last_modified r)) (filter (tile_at z x y) rs2) =
        [(d', Some (t' - t' mod 1000000))]"
    by (simp add: sql_now_def)
  show ?thesis
    by (intro exI conjI) (rule p1 f1 t1 i1 p2 f2 t2 i2 e)+
qed

theorem putTile_upsert_witness:
  "files (cache_world [stored_tile] 0) (dbPath cache_gp) = Some (Database (cache_db [stored_tile])) \<and>
   gpkg_tiles (cache_db [stored_tile]) = Some (Rows [stored_tile]) \<and>
   distinct (map tile_key [stored_tile]) \<and>
   (\<exists>w1 db1 rs1 w2 db2 rs2.
      putTile cache_gp 0 1 1 ''PNG2'' (cache_world [stored_tile] 0) = Inr w1 \<and>
      files w1 (dbPath cache_gp) = Some (Database db1) \<and> gpkg_tiles db1 = Some (Rows rs1) \<and>
      distinct (map tile_key rs1) \<and>
      putTile cache_gp 0 1 1 ''PNG3'' (w1\<lparr>now := 5000000\<rparr>) = Inr w2 \<and>
      files w2 (dbPath cache_gp) = Some (Database db2) \<and> gpkg_tiles db2 = Some (Rows rs2) \<and>
      distinct (map tile_key rs2) \<and>
      map (\<lambda>r. (tile_data r, last_modified r)) (filter (tile_at 1 0 1) rs2) =
        [(''PNG3'', Some 5000000)])"
proof -
  have i: "distinct (map tile_key [stored_tile])" by simp
  from putTile_upsert [OF cache_world_file cache_db_tiles i,
      where x = 0 and y = 1 and z = 1 and d = "''PNG2''" and d' = "''PNG3''" and t' = 5000000]
  show ?thesis by (simp add: cache_world_file cache_db_tiles)
qed

section \<open>Request addresses\<close>

text \<open>
  C5: for a WMS service, the text substituted for \<^verbatim>\<open>{BBOX}\<close> lists (ymin, xmin, ymax, xmax)
  when the version of the template is 1.3.0 and the CRS of the tile matrix is 4326, and
  (xmin, ymin, xmax, ymax) in every other case, where (xmin, ymax) is the result of
  \<open>getTileCoords\<close>, xmax = xmin + tileSize * res and ymin = ymax - tileSize * res.
\<close>

theorem buildUrl_WMS_bbox:
  assumes s: "service ms = ''WMS''"
    and l: "layers ms lk = Some lay"
    and p: "wms_prefix ms lay = Inr url"
    and d: "urlTemplate ms = TemplateDict d"
    and v: "map_of d ''VERSION'' = Some v"
    and c: "getTileCoords (tm1 ms) col row z = Inr (x0, y1)"
    and r: "getRes (tm1 ms) z = Inr res"
  shows "buildUrl ev ms lk col row z =
     Inr (Template (py_replace ''{BBOX}''
       (py_join '','' (map (str_float ev)
          (if v = ''1.3.0'' \<and> CRS (tm1 ms) = 4326
           then [y1 - of_int (tileSize (tm1 ms)) * res, x0, y1, x0 + of_int (tileSize (tm1 ms)) * res]
           else [x0, y1 - of_int (tileSize (tm1 ms)) * res, x0 + of_int (tileSize (tm1 ms)) * res, y1])))
       url))"
  by (simp add: buildUrl_def l s buildUrl_WMS_def p wms_bbox_def c r d v Let_def)

lemma wms_map_facts:
  "service (wms_map v crs) = ''WMS''"
  "layers (wms_map v crs) ''MAPNIK'' = Some example_layer"
  "urlTemplate (wms_map v crs) = TemplateDict [(''BASE_URL'', ''http://w''), (''VERSION'', v),
        (''LAYERS'', ''{LAY}''), (''BBOX'', ''{BBOX}'')]"
  "tm1 (wms_map v crs) = nw_tm\<lparr>CRS := crs\<rparr>"
  "tm2 (wms_map v crs) = nw_tm"
  by (simp_all add: wms_map_def example_map_def)

lemma wms_prefix_130:
  "wms_prefix (wms_map ''1.3.0'' crs) example_layer =
     Inr ''http://w?VERSION=1.3.0&LAYERS=osm&BBOX={BBOX}''"
  by (simp add: wms_prefix_def wms_map_facts base_params_def replace_layer_def
      example_layer_def py_replace_def Let_def)

lemma wms_prefix_111:
  "wms_prefix (wms_map ''1.1.1'' crs) example_layer =
     Inr ''http://w?VERSION=1.1.1&LAYERS=osm&BBOX={BBOX}''"
  by (simp add: wms_prefix_def wms_map_facts base_params_def replace_layer_def
      example_layer_def py_replace_def Let_def)

lemma nw_tm_crs_coords: "getTileCoords (nw_tm\<lparr>CRS := crs\<rparr>) 0 0 1 = Inr (0, 512)"
  by (simp add: getTileCoords_def getRes_def nw_tm_def py_index_def)

lemma nw_tm_crs_res: "getRes (nw_tm\<lparr>CRS := crs\<rparr>) 1 = Inr 1"
  by (simp add: getRes_def nw_tm_def py_index_def)

theorem buildUrl_WMS_bbox_witness:
  "buildUrl (example_env None) (wms_map ''1.3.0'' 4326) ''MAPNIK'' 0 0 1 =
     Inr (Template ''http://w?VERSION=1.3.0&LAYERS=osm&BBOX=256.0,0.0,512.0,256.0'') \<and>
   buildUrl (example_env None) (wms_map ''1.3.0'' 3857) ''MAPNIK'' 0 0 1 =
     Inr (Template ''http://w?VERSION=1.3.0&LAYERS=osm&BBOX=0.0,256.0,256.0,512.0'') \<and>
   buildUrl (example_env None) (wms_map ''1.1.1'' 4326) ''MAPNIK'' 0 0 1 =
     Inr (Template ''http://w?VERSION=1.1.1&LAYERS=osm&BBOX=0.0,256.0,256.0,512.0'')"
proof -
  have v: "map_of [(''BASE_URL'', ''http://w''), (''VERSION'', v),
        (''LAYERS'', ''{LAY}''), (''BBOX'', ''{BBOX}'')] ''VERSION'' = Some v" for v :: string
    by simp
  note b = buildUrl_WMS_bbox [OF wms_map_facts(1) wms_map_facts(2) _ wms_map_facts(3) v,
      unfolded wms_map_facts(4), OF _ nw_tm_crs_coords nw_tm_crs_res, where ev = "example_env None"]
  have a: "buildUrl (example_env None) (wms_map ''1.3.0'' 4326) ''MAPNIK'' 0 0 1 =
     Inr (Template ''http://w?VERSION=1.3.0&LAYERS=osm&BBOX=256.0,0.0,512.0,256.0'')"
    using b [OF wms_prefix_130 [unfolded wms_map_facts(4)], of 4326]
    by (simp add: example_env_def nw_tm_def py_replace_def)
  have b1: "buildUrl (example_env None) (wms_map ''1.3.0'' 3857) ''MAPNIK'' 0 0 1 =
     Inr (Template ''http://w?VERSION=1.3.0&LAYERS=osm&BBOX=0.0,256.0,256.0,512.0'')"
    using b [OF wms_prefix_130 [unfolded wms_map_facts(4)], of 3857]
    by (simp add: example_env_def nw_tm_def py_replace_def)
  have c: "buildUrl (example_env None) (wms_map ''1.1.1'' 4326) ''MAPNIK'' 0 0 1 =
     Inr (Template ''http://w?VERSION=1.1.1&LAYERS=osm&BBOX=0.0,256.0,256.0,512.0'')"
    using b [OF wms_prefix_111 [unfolded wms_map_facts(4)], of 4326]
    by (simp add: example_env_def nw_tm_def py_replace_def)
  from a b1 c show ?thesis by simp
qed

section \<open>Fetching tiles\<close>

lemma GeoPackage_getTile_world:
  "GeoPackage_getTile gp x y z w = Inr (d, w') \<Longrightarrow> w' = w\<lparr>log := log w @ [TileRead z x y]\<rparr>"
  by (auto simp: GeoPackage_getTile_def Let_def split: sum.splits option.splits if_splits)

lemma create_log: "create gp w = Inr w' \<Longrightarrow> log w' = log w"
  by (auto simp: create_def Let_def log_store split: sum.splits if_splits)

lemma insertMetadata_log: "insertMetadata gp w = Inr w' \<Longrightarrow> log w' = log w"
  by (auto simp: insertMetadata_def log_store split: sum.splits)

lemma insertCRS_log: "insertCRS gp c n k w = Inr w' \<Longrightarrow> log w' = log w"
  by (auto simp: insertCRS_def log_store split: sum.splits)

lemma insertTileMatrixSet_log: "insertTileMatrixSet gp w = Inr w' \<Longrightarrow> log w' = log w"
  by (auto simp: insertTileMatrixSet_def Let_def log_store split: sum.splits)

lemma GeoPackage_init_log:
  assumes "GeoPackage_init path tm w = Inr (gp, w')"
  shows "log w' = log w"
  using assms unfolding GeoPackage_init_def Let_def
  by (auto split: sum.splits bool.splits
      dest!: create_log insertMetadata_log insertCRS_log insertTileMatrixSet_log)

lemma getCache_attrs:
  assumes "getCache ms lk w = Inr (cache, ms', w')"
  shows "ms' = ms\<lparr>caches := (caches ms)(lk \<mapsto> cache)\<rparr>"
proof (cases "caches ms lk")
  case None
  with assms show ?thesis
    by (auto simp: getCache_def Let_def split: sum.splits)
next
  case (Some c)
  with assms have "cache = c" and "ms' = ms" by (simp_all add: getCache_def)
  moreover from Some have "(caches ms)(lk \<mapsto> c) = caches ms" by (rule map_upd_triv)
  ultimately show ?thesis by simp
qed

lemma getCache_log:
  assumes "getCache ms lk w = Inr (cache, ms', w')"
  shows "log w' = log w"
proof (cases "caches ms lk")
  case None
  with assms show ?thesis
    by (auto simp: getCache_def Let_def split: sum.splits dest: GeoPackage_init_log)
next
  case (Some c)
  with assms show ?thesis by (simp add: getCache_def)
qed

lemma getCache_open:
  "caches ms lk = Some c \<Longrightarrow> getCache ms lk w = Inr (c, ms, w)"
  by (simp add: getCache_def)

lemma GeoPackage_init_no_file:
  "GeoPackage_init cache_path nw_tm fresh_world =
     Inr (cache_gp, store fresh_world cache_path (initialized cache_gp 0 empty_db))"
proof -
  have f: "files fresh_world cache_path = None" by (simp add: fresh_world_def)
  have cn: "connect fresh_world cache_path = Inr empty_db" by (simp add: connect_def f)
  have v: "isGPKG (GeoPackage_attrs cache_path nw_tm [2, 1]) fresh_world = Inr False"
    by (rule isGPKG_absent) (simp add: f GeoPackage_attrs_def)
  have nz: "\<forall>res\<in>set [2, 1]. of_int (tileSize nw_tm) * res \<noteq> (0::real)"
    by (simp add: nw_tm_def)
  have n: "now fresh_world = 0" by (simp add: fresh_world_def)
  from GeoPackage_init_fresh [OF cn v _ _ _ _ _ getResList_nw_tm nz,
      unfolded cache_gp_def [symmetric] n]
  show ?thesis by (simp add: empty_db_def)
qed

text \<open>
  C10 (as stated): with no cache file yet and the cache of the layer not open, \<open>getTile\<close>
  for the column -1 returns \<open>None\<close>, but it has written to the cache: the file of the
  cache now exists, with the schema and the metadata rows. \<open>getCache\<close> runs before the
  test of the bounds.
\<close>

theorem getTile_out_of_bounds_counterexample:
  "files fresh_world cache_path = None \<and>
   getTile (example_env None) fresh_map ''MAPNIK'' (- 1) 0 1 fresh_world =
     Inr (None, fresh_map\<lparr>caches := [''MAPNIK'' \<mapsto> cache_gp]\<rparr>,
          store fresh_world cache_path (initialized cache_gp 0 empty_db)) \<and>
   files (store fresh_world cache_path (initialized cache_gp 0 empty_db)) cache_path =
     Some (Database (initialized cache_gp 0 empty_db))"
proof -
  have f: "files fresh_world cache_path = None" by (simp add: fresh_world_def)
  have t: "tm2 fresh_map = nw_tm" and k: "caches fresh_map = Map.empty"
    and cf: "cacheFolder fresh_map = ''/tmp/''" and sk: "srcKey fresh_map = ''OSM''"
    by (simp_all add: fresh_map_def example_map_def)
  have c: "getCache fresh_map ''MAPNIK'' fresh_world =
      Inr (cache_gp, fresh_map\<lparr>caches := [''MAPNIK'' \<mapsto> cache_gp]\<rparr>,
           store fresh_world cache_path (initialized cache_gp 0 empty_db))"
    by (simp add: getCache_def k Let_def cf sk t GeoPackage_init_no_file [unfolded cache_path_def]
        cache_path_def)
  have xy: "getTileCoords nw_tm (- 1) 0 1 = Inr (- 256, 512)"
    by (simp add: getTileCoords_def getRes_def nw_tm_def py_index_def)
  have g: "getTile (example_env None) fresh_map ''MAPNIK'' (- 1) 0 1 fresh_world =
     Inr (None, fresh_map\<lparr>caches := [''MAPNIK'' \<mapsto> cache_gp]\<rparr>,
          store fresh_world cache_path (initialized cache_gp 0 empty_db))"
    by (simp add: getTile_def c t xy)
  from f g show ?thesis by (simp add: files_store)
qed

text \<open>
  C10 (amended): when \<open>getCache\<close> and \<open>getTileCoords\<close>, which \<open>getTile\<close> calls first, return
  normally, and the column or the row is negative, or the top-left coordinate (x, y) of the
  tile fails xmin \<le> x < xmax or ymin < y \<le> ymax of the bounding box of the tile matrix,
  then \<open>getTile\<close> returns \<open>None\<close> in the state that \<open>getCache\<close> left: no tile was read
  from the cache, no request was sent and no tile was written (the record of requests is
  as before the call). What \<open>getCache\<close> does on the first use of a layer, opening and
  possibly initializing the file of its cache, is the only effect; with the cache of the
  layer open already the world is unchanged.
\<close>

theorem getTile_out_of_bounds:
  assumes c: "getCache ms lk w = Inr (cache, ms', w')"
    and xy: "getTileCoords (tm2 ms) col row z = Inr (x, y)"
    and g: "col < 0 \<or> row < 0 \<or>
            \<not> (xmin (tm2 ms) \<le> x \<and> x < xmax (tm2 ms)) \<or>
            \<not> (ymin (tm2 ms) < y \<and> y \<le> ymax (tm2 ms))"
  shows "getTile ev ms lk col row z w = Inr (None, ms', w') \<and>
         log w' = log w \<and>
         (caches ms lk \<noteq> None \<longrightarrow> w' = w)"
proof -
  have t: "tm2 ms' = tm2 ms" unfolding getCache_attrs [OF c] by simp
  have "getTile ev ms lk col row z w = Inr (None, ms', w')"
    using g by (auto simp: getTile_def c t xy)
  moreover have "log w' = log w" using c by (rule getCache_log)
  moreover have "caches ms lk \<noteq> None \<longrightarrow> w' = w"
    using c by (auto simp: getCache_def)
  ultimately show ?thesis by simp
qed

lemma fold_max_ge: "(s::int) \<le> fold max xs s"
proof (induction xs arbitrary: s)
  case Nil
  show ?case by simp
next
  case (Cons x xs)
  have "s \<le> max x s" by simp
  also have "max x s \<le> fold max xs (max x s)" by (rule Cons.IH)
  finally show ?case by simp
qed

lemma fold_max_mem: "x \<in> set xs \<Longrightarrow> (x::int) \<le> fold max xs s"
proof (induction xs arbitrary: s)
  case Nil
  then show ?case by simp
next
  case (Cons a xs)
  show ?case
  proof (cases "x = a")
    case True
    have "x \<le> max a s" using True by simp
    also have "max a s \<le> fold max xs (max a s)" by (rule fold_max_ge)
    finally show ?thesis by simp
  next
    case False
    with Cons.prems have "x \<in> set xs" by simp
    then have "x \<le> fold max xs (max a s)" by (rule Cons.IH)
    then show ?thesis by simp
  qed
qed

lemma next_id_fresh: "r \<in> set rs \<Longrightarrow> tile_id r < next_id db rs"
proof -
  assume "r \<in> set rs"
  then have "tile_id r \<in> set (map tile_id rs)" by simp
  then have "tile_id r \<le> fold max (map tile_id rs) (tiles_seq db)" by (rule fold_max_mem)
  then show ?thesis by (simp add: next_id_def)
qed

lemma filter_other_key:
  assumes "z \<noteq> z'"
  shows "filter (tile_at z x y)
           (insert_or_replace tile_conflict
              \<lparr> tile_id = next_id db rs, zoom_level = z', tile_column = x, tile_row = y,
                tile_data = d, last_modified = m \<rparr> rs) =
         filter (tile_at z x y) rs"
proof -
  let ?r = "\<lparr> tile_id = next_id db rs, zoom_level = z', tile_column = x, tile_row = y,
                tile_data = d, last_modified = m \<rparr>"
  have "filter (tile_at z x y) (filter (\<lambda>r'. \<not> tile_conflict ?r r') rs) =
        filter (tile_at z x y) rs"
    unfolding filter_filter
  proof (rule filter_cong [OF refl])
    fix r assume r: "r \<in> set rs"
    from next_id_fresh [OF r, of db] have "tile_id r \<noteq> next_id db rs" by simp
    then show "(\<not> tile_conflict ?r r \<and> tile_at z x y r) = tile_at z x y r"
      using assms by (auto simp: tile_conflict_def tile_at_def)
  qed
  moreover have "\<not> tile_at z x y ?r" using assms by (simp add: tile_at_def)
  ultimately show ?thesis by (simp add: insert_or_replace_def)
qed

text \<open>
  C9: on a cache miss (no usable bytes for the key (z, col, row)) followed by a download
  that \<^verbatim>\<open>imghdr\<close> accepts, \<open>getTile\<close> returns the bytes, having read the cache at
  (z, col, row) and written it at (zoom ms, col, row), the key of the attribute
  \<^verbatim>\<open>self.zoom\<close>: the table then has exactly one row at that key, holding the bytes,
  and when the argument \<open>z\<close> differs from the attribute, the rows at the key of the lookup
  are what they were.
\<close>

theorem getTile_insert_key:
  assumes c: "getCache ms lk w = Inr (cache, ms', w')"
    and xy: "getTileCoords (tm2 ms) col row z = Inr (x, y)"
    and inb: "0 \<le> col" "0 \<le> row" "xmin (tm2 ms) \<le> x" "x < xmax (tm2 ms)"
      "ymin (tm2 ms) < y" "y \<le> ymax (tm2 ms)"
    and f: "files w' (dbPath cache) = Some (Database db)"
    and t: "gpkg_tiles db = Some (Rows rs)"
    and miss: "GeoPackage_getTile cache col row z w' = Inr (d0, w'')" "sniffed ev d0 = None"
    and u: "buildUrl ev ms' lk col row z = Inr (Template u)"
    and dl: "urlopen ev u = Some d" "what ev d \<noteq> None"
  shows "\<exists>w3 db3 rs3.
      getTile ev ms lk col row z w = Inr (Some d, ms', w3) \<and>
      log w3 = log w @ [TileRead z col row, HttpGet u, TileWrite (zoom ms) col row d] \<and>
      files w3 (dbPath cache) = Some (Database db3) \<and>
      gpkg_tiles db3 = Some (Rows rs3) \<and>
      map tile_data (filter (tile_at (zoom ms) col row) rs3) = [d] \<and>
      (z \<noteq> zoom ms \<longrightarrow> filter (tile_at z col row) rs3 = filter (tile_at z col row) rs)"
proof -
  have tm: "tm2 ms' = tm2 ms" and zm: "zoom ms' = zoom ms"
    unfolding getCache_attrs [OF c] by simp_all
  have lg: "log w' = log w" using c by (rule getCache_log)
  have w'': "w'' = w'\<lparr>log := log w' @ [TileRead z col row]\<rparr>"
    using miss(1) by (rule GeoPackage_getTile_world)
  define w2 where "w2 = w''\<lparr>log := log w'' @ [HttpGet u]\<rparr>"
  have dw: "download ev (Template u) w'' = (Some d, w2)"
    by (simp add: download_def dl(1) w2_def)
  have sn: "sniffed ev (Some d) = Some d" using dl(2) by (simp add: sniffed_def)
  have f2: "files w2 (dbPath cache) = Some (Database db)"
    using f by (simp add: w2_def w'')
  let ?r = "\<lparr> tile_id = next_id db rs, zoom_level = zoom ms, tile_column = col,
             tile_row = row, tile_data = d, last_modified = Some (sql_now w2) \<rparr>"
  define rs3 where "rs3 = insert_or_replace tile_conflict ?r rs"
  define db3 where "db3 = db\<lparr>gpkg_tiles := Some (Rows rs3), tiles_seq := next_id db rs\<rparr>"
  define w3 where "w3 = (store w2 (dbPath cache) db3)\<lparr>log := log w2 @ [TileWrite (zoom ms) col row d]\<rparr>"
  have pt: "putTile cache col row (zoom ms) d w2 = Inr w3"
    unfolding putTile_val [OF f2 t] w3_def db3_def rs3_def by simp
  have g: "getTile ev ms lk col row z w = Inr (Some d, ms', w3)"
    using inb by (simp add: getTile_def c tm xy miss u dw sn zm pt)
  have l3: "log w3 = log w @ [TileRead z col row, HttpGet u, TileWrite (zoom ms) col row d]"
    by (simp add: w3_def w2_def w'' lg)
  have f3: "files w3 (dbPath cache) = Some (Database db3)"
    by (simp add: w3_def files_store)
  have t3: "gpkg_tiles db3 = Some (Rows rs3)" by (simp add: db3_def)
  have "tile_at (zoom ms) col row ?r" by (simp add: tile_at_def)
  then have "filter (tile_at (zoom ms) col row) rs3 = [?r]"
    unfolding rs3_def by (rule filter_insert_or_replace)
  then have k: "map tile_data (filter (tile_at (zoom ms) col row) rs3) = [d]" by simp
  have o: "z \<noteq> zoom ms \<longrightarrow> filter (tile_at z col row) rs3 = filter (tile_at z col row) rs"
    unfolding rs3_def by (rule impI) (rule filter_other_key)
  show ?thesis
    by (intro exI conjI) (rule g l3 f3 t3 k o)+
qed


text \<open>
  C8: for a tile that a running worker processes and that reaches the download (cache open,
  tile inside the bounds, the cache without bytes for the key or with bytes that
  \<^verbatim>\<open>imghdr.what\<close> does not recognize, an address built), if the request fails
  (\<open>urlopen\<close> gives nothing) or \<^verbatim>\<open>imghdr.what\<close> does not recognize the bytes it fetched,
  then \<open>getTile\<close> returns \<open>None\<close> without an exception, the files are as before and no
  tile is written, and \<open>load\<close> pastes a blank tile of tileSize x tileSize at
  ((col - col1) * tileSize, |row - row1| * tileSize), counts the tile and goes on with the
  remaining tiles. The tile size is positive.
\<close>

theorem load_failed_tile:
  assumes run: "running ms"
    and c: "getCache ms (layKey ms) w = Inr (cache, ms', w')"
    and xy: "getTileCoords (tm2 ms) col row (zoom ms) = Inr (x, y)"
    and inb: "0 \<le> col" "0 \<le> row" "xmin (tm2 ms) \<le> x" "x < xmax (tm2 ms)"
      "ymin (tm2 ms) < y" "y \<le> ymax (tm2 ms)"
    and rd: "GeoPackage_getTile cache col row (zoom ms) w' = Inr (d0, w'')"
    and miss: "d0 = None \<or> (\<exists>b. d0 = Some b \<and> what ev b = None)"
    and u: "buildUrl ev ms' (layKey ms) col row (zoom ms) = Inr (Template u)"
    and fail: "urlopen ev u = None \<or> (\<exists>d. urlopen ev u = Some d \<and> what ev d = None)"
    and ts: "0 < tileSize (tm2 ms)"
  shows "getTile ev ms (layKey ms) col row (zoom ms) w =
           Inr (None, ms', w''\<lparr>log := log w'' @ [HttpGet u]\<rparr>) \<and>
         files (w''\<lparr>log := log w'' @ [HttpGet u]\<rparr>) = files w' \<and>
         log (w''\<lparr>log := log w'' @ [HttpGet u]\<rparr>) =
           log w @ [TileRead (zoom ms) col row, HttpGet u] \<and>
         load ev ((col, row) # tiles) ms w =
           load ev tiles
             (ms'\<lparr>mosaic := mosaic ms @
                  [(Blank (tileSize (tm2 ms)) (tileSize (tm2 ms)),
                    (col - col1 ms) * tileSize (tm2 ms),
                    \<bar>row - row1 ms\<bar> * tileSize (tm2 ms))],
                 cptTiles := cptTiles ms + 1\<rparr>)
             (w''\<lparr>log := log w'' @ [HttpGet u]\<rparr>)"
proof -
  note a = getCache_attrs [OF c]
  have tm: "tm2 ms' = tm2 ms" and mo: "mosaic ms' = mosaic ms" and cp: "cptTiles ms' = cptTiles ms"
    and c1: "col1 ms' = col1 ms" and r1: "row1 ms' = row1 ms"
    unfolding a by simp_all
  have lg: "log w' = log w" using c by (rule getCache_log)
  have w'': "w'' = w'\<lparr>log := log w' @ [TileRead (zoom ms) col row]\<rparr>"
    using rd by (rule GeoPackage_getTile_world)
  have s0: "sniffed ev d0 = None"
    using miss by (auto simp: sniffed_def)
  have s1: "sniffed ev (urlopen ev u) = None"
    using fail by (auto simp: sniffed_def)
  have dw: "download ev (Template u) w'' = (urlopen ev u, w''\<lparr>log := log w'' @ [HttpGet u]\<rparr>)"
    by (simp add: download_def)
  have g: "getTile ev ms (layKey ms) col row (zoom ms) w =
           Inr (None, ms', w''\<lparr>log := log w'' @ [HttpGet u]\<rparr>)"
    using inb by (simp add: getTile_def c tm xy rd s0 u dw s1)
  have b: "open_or_blank ev (tileSize (tm2 ms)) None =
      Inr (Blank (tileSize (tm2 ms)) (tileSize (tm2 ms)))"
    using ts by (simp add: open_or_blank_def)
  have l: "load ev ((col, row) # tiles) ms w =
           load ev tiles
             (ms'\<lparr>mosaic := mosaic ms @
                  [(Blank (tileSize (tm2 ms)) (tileSize (tm2 ms)),
                    (col - col1 ms) * tileSize (tm2 ms),
                    \<bar>row - row1 ms\<bar> * tileSize (tm2 ms))],
                 cptTiles := cptTiles ms + 1\<rparr>)
             (w''\<lparr>log := log w'' @ [HttpGet u]\<rparr>)"
    using run by (simp add: g tm b mo cp c1 r1 Let_def)
  have f: "files (w''\<lparr>log := log w'' @ [HttpGet u]\<rparr>) = files w'"
    by (simp add: w'')
  have k: "log (w''\<lparr>log := log w'' @ [HttpGet u]\<rparr>) =
           log w @ [TileRead (zoom ms) col row, HttpGet u]"
    by (simp add: w'' lg)
  from g f k l show ?thesis by simp
qed

lemma example_map_facts:
  "caches example_map ''MAPNIK'' = Some cache_gp"
  "tm2 example_map = nw_tm"
  "zoom example_map = 1"
  "layKey example_map = ''MAPNIK''"
  "running example_map"
  "col1 example_map = 0"
  "row1 example_map = 0"
  "mosaic example_map = []"
  "cptTiles example_map = 0"
  by (simp_all add: example_map_def)

lemma example_buildUrl:
  "buildUrl ev example_map ''MAPNIK'' 0 1 1 = Inr (Template ''http://t/osm/1/0/1'')"
  "buildUrl ev example_map ''MAPNIK'' 0 0 0 = Inr (Template ''http://t/osm/0/0/0'')"
  by (simp_all add: buildUrl_def example_map_def buildUrl_TMS_def example_layer_def
      py_replace_def str_int_def digit_char_def Let_def)

lemma nw_tm_coords:
  "getTileCoords nw_tm 0 1 1 = Inr (0, 256)"
  "getTileCoords nw_tm 0 0 0 = Inr (0, 512)"
  "getTileCoords nw_tm (- 1) 0 1 = Inr (- 256, 512)"
  by (simp_all add: getTileCoords_def getRes_def nw_tm_def py_index_def)

lemma nw_tm_bbox: "xmin nw_tm = 0" "xmax nw_tm = 512" "ymin nw_tm = 0" "ymax nw_tm = 512"
  "tileSize nw_tm = 256"
  by (simp_all add: nw_tm_def)

lemma empty_cache_miss:
  "GeoPackage_getTile cache_gp col row z (cache_world [] t) =
     Inr (None, (cache_world [] t)\<lparr>log := log (cache_world [] t) @ [TileRead z col row]\<rparr>)"
  by (simp add: GeoPackage_getTile_def connect_db [OF cache_world_file] cache_db_tiles
      rows_of_def Let_def)

theorem getTile_out_of_bounds_witness:
  "getTileCoords (tm2 example_map) (- 1) 0 1 = Inr (- 256, 512) \<and>
   getTile (example_env None) example_map ''MAPNIK'' (- 1) 0 1 (cache_world [] 0) =
     Inr (None, example_map, cache_world [] 0)"
proof -
  have c: "getCache example_map ''MAPNIK'' (cache_world [] 0) =
      Inr (cache_gp, example_map, cache_world [] 0)"
    by (rule getCache_open) (rule example_map_facts)
  have xy: "getTileCoords (tm2 example_map) (- 1) 0 1 = Inr (- 256, 512)"
    by (simp add: example_map_facts nw_tm_coords)
  from getTile_out_of_bounds [OF c xy, of "example_env None"] xy
  show ?thesis by simp
qed

theorem getTile_insert_key_witness:
  "zoom example_map = 1 \<and>
   (\<exists>w3 db3 rs3.
      getTile (example_env (Some ''PNG9'')) example_map ''MAPNIK'' 0 0 0 (cache_world [] 0) =
        Inr (Some ''PNG9'', example_map, w3) \<and>
      log w3 = [TileRead 0 0 0, HttpGet ''http://t/osm/0/0/0'', TileWrite 1 0 0 ''PNG9''] \<and>
      files w3 (dbPath cache_gp) = Some (Database db3) \<and>
      gpkg_tiles db3 = Some (Rows rs3) \<and>
      map tile_data (filter (tile_at 1 0 0) rs3) = [''PNG9''] \<and>
      filter (tile_at 0 0 0) rs3 = [])"
proof -
  have c: "getCache example_map ''MAPNIK'' (cache_world [] 0) =
      Inr (cache_gp, example_map, cache_world [] 0)"
    by (rule getCache_open) (rule example_map_facts)
  have xy: "getTileCoords (tm2 example_map) 0 0 0 = Inr (0, 512)"
    by (simp add: example_map_facts nw_tm_coords)
  have s: "sniffed (example_env (Some ''PNG9'')) None = None" by (simp add: sniffed_def)
  have o: "urlopen (example_env (Some ''PNG9'')) ''http://t/osm/0/0/0'' = Some ''PNG9''"
    by (simp add: example_env_def)
  have h: "what (example_env (Some ''PNG9'')) ''PNG9'' \<noteq> None"
    by (simp add: example_env_def)
  from getTile_insert_key [OF c xy _ _ _ _ _ _ cache_world_file cache_db_tiles
      empty_cache_miss s example_buildUrl(2) o h]
  show ?thesis
    by (simp add: example_map_facts nw_tm_bbox cache_world_def)
qed

theorem load_failed_tile_witness:
  "urlopen (example_env None) ''http://t/osm/1/0/1'' = None \<and>
   load (example_env None) [(0, 1)] example_map (cache_world [] 0) =
     Inr (example_map\<lparr>mosaic := [(Blank 256 256, 0, 256)], cptTiles := 1\<rparr>,
          (cache_world [] 0)\<lparr>log := [TileRead 1 0 1, HttpGet ''http://t/osm/1/0/1'']\<rparr>) \<and>
   urlopen (example_env (Some ''<html>'')) ''http://t/osm/1/0/1'' = Some ''<html>'' \<and>
   what (example_env (Some ''<html>'')) ''<html>'' = None \<and>
   getTile (example_env (Some ''<html>'')) example_map ''MAPNIK'' 0 1 1 (cache_world [] 0) =
     Inr (None, example_map,
          (cache_world [] 0)\<lparr>log := [TileRead 1 0 1, HttpGet ''http://t/osm/1/0/1'']\<rparr>) \<and>
   load (example_env (Some ''<html>'')) [(0, 1)] example_map (cache_world [] 0) =
     Inr (example_map\<lparr>mosaic := [(Blank 256 256, 0, 256)], cptTiles := 1\<rparr>,
          (cache_world [] 0)\<lparr>log := [TileRead 1 0 1, HttpGet ''http://t/osm/1/0/1'']\<rparr>) \<and>
   files ((cache_world [] 0)\<lparr>log := [TileRead 1 0 1, HttpGet ''http://t/osm/1/0/1'']\<rparr>)
       (dbPath cache_gp) = Some (Database (cache_db []))"
proof -
  have c: "getCache example_map (layKey example_map) (cache_world [] 0) =
      Inr (cache_gp, example_map, cache_world [] 0)"
    unfolding example_map_facts by (rule getCache_open) (rule example_map_facts)
  have xy: "getTileCoords (tm2 example_map) 0 1 (zoom example_map) = Inr (0, 256)"
    by (simp add: example_map_facts nw_tm_coords)
  have m: "GeoPackage_getTile cache_gp 0 1 (zoom example_map) (cache_world [] 0) =
     Inr (None, (cache_world [] 0)\<lparr>log := log (cache_world [] 0) @ [TileRead 1 0 1]\<rparr>)"
    unfolding example_map_facts by (rule empty_cache_miss)
  have d0: "(None :: bytes option) = None \<or> (\<exists>b. (None :: bytes option) = Some b \<and> what ev b = None)"
    for ev by simp
  have b: "buildUrl ev example_map (layKey example_map) 0 1 (zoom example_map) =
      Inr (Template ''http://t/osm/1/0/1'')" for ev
    unfolding example_map_facts by (rule example_buildUrl)
  have i: "(0::int) \<le> 0" "(0::int) \<le> 1" "xmin (tm2 example_map) \<le> 0"
    "0 < xmax (tm2 example_map)" "ymin (tm2 example_map) < 256" "256 \<le> ymax (tm2 example_map)"
    "0 < tileSize (tm2 example_map)"
    by (simp_all add: example_map_facts nw_tm_bbox)
  have o1: "urlopen (example_env None) ''http://t/osm/1/0/1'' = None"
    by (simp add: example_env_def)
  have o2: "urlopen (example_env (Some ''<html>'')) ''http://t/osm/1/0/1'' = Some ''<html>''"
    and h2: "what (example_env (Some ''<html>'')) ''<html>'' = None"
    by (simp_all add: example_env_def)
  have f1: "urlopen (example_env None) ''http://t/osm/1/0/1'' = None \<or>
      (\<exists>d. urlopen (example_env None) ''http://t/osm/1/0/1'' = Some d \<and>
           what (example_env None) d = None)"
    using o1 by simp
  have f2: "urlopen (example_env (Some ''<html>'')) ''http://t/osm/1/0/1'' = None \<or>
      (\<exists>d. urlopen (example_env (Some ''<html>'')) ''http://t/osm/1/0/1'' = Some d \<and>
           what (example_env (Some ''<html>'')) d = None)"
    using o2 h2 by simp
  note r1 = load_failed_tile [OF example_map_facts(5) c xy i(1-6) m d0 b f1 i(7), of "[]"]
  note r2 = load_failed_tile [OF example_map_facts(5) c xy i(1-6) m d0 b f2 i(7), of "[]"]
  have l1: "load (example_env None) [(0, 1)] example_map (cache_world [] 0) =
     Inr (example_map\<lparr>mosaic := [(Blank 256 256, 0, 256)], cptTiles := 1\<rparr>,
          (cache_world [] 0)\<lparr>log := [TileRead 1 0 1, HttpGet ''http://t/osm/1/0/1'']\<rparr>)"
    using r1
    by (simp del: load.simps add: load.simps(1) example_map_facts nw_tm_bbox cache_world_def)
  have l2: "load (example_env (Some ''<html>'')) [(0, 1)] example_map (cache_world [] 0) =
     Inr (example_map\<lparr>mosaic := [(Blank 256 256, 0, 256)], cptTiles := 1\<rparr>,
          (cache_world [] 0)\<lparr>log := [TileRead 1 0 1, HttpGet ''http://t/osm/1/0/1'']\<rparr>)"
    using r2
    by (simp del: load.simps add: load.simps(1) example_map_facts nw_tm_bbox cache_world_def)
  have g2: "getTile (example_env (Some ''<html>'')) example_map ''MAPNIK'' 0 1 1 (cache_world [] 0) =
     Inr (None, example_map,
          (cache_world [] 0)\<lparr>log := [TileRead 1 0 1, HttpGet ''http://t/osm/1/0/1'']\<rparr>)"
    using r2
    by (simp del: load.simps add: example_map_facts cache_world_def)
  have f: "files ((cache_world [] 0)\<lparr>log := [TileRead 1 0 1, HttpGet ''http://t/osm/1/0/1'']\<rparr>)
       (dbPath cache_gp) = Some (Database (cache_db []))"
    using cache_world_file [of "[]" 0] by simp
  from o1 l1 o2 h2 g2 l2 f show ?thesis by simp
qed

end
